theory Spec2Isabelle
  imports Main "HOL-Library.Word" "HOL-Library.Multiset"
begin

section \<open>The bitum cache plugin (politeiad/cache/cockroachdb/bitum.go)\<close>

text \<open>
  The plugin mirrors comments, votes and vote results of the proposal system into
  relational tables. The embedding follows the Go source function by function: a table is
  the list of its rows, a handler takes the database handle and returns the new one
  together with Go's pair of reply payload and error.
\<close>

subsection \<open>Errors\<close>

text \<open>
  Go errors are values. \<open>Errorf p e\<close> is \<open>fmt.Errorf(p + ": %v", e)\<close>, \<open>ErrorMsg\<close> an
  error built from a message only, \<open>StoreFault\<close> any failure reported by the store itself
  and \<open>CodecError\<close> whatever a payload decoder or encoder reports.
\<close>

datatype error =
    ErrRecordNotFound
  | GormRecordNotFound
  | ErrInvalidPluginCmd
  | ErrNoVersionRecord
  | ErrWrongVersion
  | StoreFault
  | CodecError string
  | ParseUintError string
  | ErrorMsg string
  | Errorf string error

subsection \<open>strings and strconv\<close>

text \<open>
  \<open>strings.Split(s, ",")\<close> with a one-byte separator: the pieces between the separators,
  so a string without separator (the empty string too) gives one piece.
\<close>

definition strings_Split :: "string \<Rightarrow> char \<Rightarrow> string list" where
  "strings_Split s sep =
     foldr (\<lambda>c acc. if c = sep then [] # acc else (c # hd acc) # tl acc) s [[]]"

definition digit_char :: "nat \<Rightarrow> char" where
  "digit_char d = ''0123456789abcdef'' ! d"

text \<open>\<open>strconv.FormatUint(v, base)\<close> for a base between 2 and 16.\<close>

function format_nat :: "nat \<Rightarrow> nat \<Rightarrow> string" where
  "format_nat base n =
     (if n < base \<or> base < 2 then [digit_char n]
      else format_nat base (n div base) @ [digit_char (n mod base)])"
  by pat_completeness auto
termination
  by (relation "measure snd") auto

definition FormatUint :: "64 word \<Rightarrow> nat \<Rightarrow> string" where
  "FormatUint v base = format_nat base (unat v)"

text \<open>
  \<open>strconv.ParseUint(s, 10, 64)\<close>: decimal digits only, at least one, and a value below
  \<open>2 ^ 64\<close>; anything else is an error.
\<close>

definition is_digit :: "char \<Rightarrow> bool" where
  "is_digit c = (c \<in> set ''0123456789'')"

definition digit_val :: "char \<Rightarrow> nat" where
  "digit_val c = of_char c - 48"

definition ParseUint :: "string \<Rightarrow> error + 64 word" where
  "ParseUint s =
     (if s = [] \<or> \<not> list_all is_digit s then Inl (ParseUintError s)
      else let n = foldl (\<lambda>a c. 10 * a + digit_val c) 0 s
           in if n < 2 ^ 64 then Inr (of_nat n) else Inl (ParseUintError s))"

subsection \<open>float64 arithmetic\<close>

text \<open>
  The tally converts unsigned integers to \<open>float64\<close>, divides, multiplies and converts
  back. Only non-negative values occur, all of them zero or within \<open>2 ^ -7\<close> and
  \<open>2 ^ 96\<close>, far from the subnormal and the overflow range. A float is kept as mantissa and
  binary exponent, \<open>(m, e)\<close> standing for \<open>m * 2 ^ e\<close>; every operation rounds the exact
  result to the nearest value with a 53-bit mantissa, ties to the even mantissa, as IEEE 754
  does.
\<close>

type_synonym float64 = "nat \<times> int"

fun ilog2 :: "nat \<Rightarrow> nat" where
  "ilog2 n = (if n < 2 then 0 else Suc (ilog2 (n div 2)))"

declare ilog2.simps [simp del]

text \<open>\<open>geq_pow2 p q k\<close> decides \<open>p / q \<ge> 2 ^ k\<close> for an integer \<open>k\<close>.\<close>

definition geq_pow2 :: "nat \<Rightarrow> nat \<Rightarrow> int \<Rightarrow> bool" where
  "geq_pow2 p q k = (if 0 \<le> k then q * 2 ^ nat k \<le> p else q \<le> p * 2 ^ nat (- k))"

text \<open>
  \<open>f64_round p q sh\<close> is the float nearest to \<open>p / q * 2 ^ sh\<close> (\<open>q > 0\<close>): the binade
  \<open>e\<close> of \<open>p / q\<close>, the quotient scaled to \<open>[2 ^ 52, 2 ^ 53)\<close> and rounded to an integer.
\<close>

definition f64_round :: "nat \<Rightarrow> nat \<Rightarrow> int \<Rightarrow> float64" where
  "f64_round p q sh =
     (if p = 0 then (0, 0)
      else let k = int (ilog2 p) - int (ilog2 q);
               e = (if geq_pow2 p q k then k else k - 1);
               s = e - 52;
               num = (if 0 \<le> s then p else p * 2 ^ nat (- s));
               den = (if 0 \<le> s then q * 2 ^ nat s else q);
               m = num div den;
               r = num mod den;
               m' = (if 2 * r < den then m
                     else if den < 2 * r then m + 1
                     else if even m then m else m + 1)
           in (m', s + sh))"

definition f64_of_nat :: "nat \<Rightarrow> float64" where
  "f64_of_nat n = f64_round n 1 0"

definition f64_div :: "float64 \<Rightarrow> float64 \<Rightarrow> float64" where
  "f64_div a b = f64_round (fst a) (fst b) (snd a - snd b)"

definition f64_mul :: "float64 \<Rightarrow> float64 \<Rightarrow> float64" where
  "f64_mul a b = f64_round (fst a * fst b) 1 (snd a + snd b)"

text \<open>\<open>uint64(f)\<close>: the integer part of a non-negative float, as a 64-bit word.\<close>

definition uint64_of_f64 :: "float64 \<Rightarrow> 64 word" where
  "uint64_of_f64 a =
     of_nat (if 0 \<le> snd a then fst a * 2 ^ nat (snd a) else fst a div 2 ^ nat (- snd a))"

text \<open>\<open>uint64(float64(pct) / 100 * float64(n))\<close>, the expression of both thresholds.\<close>

definition percent_of :: "32 word \<Rightarrow> nat \<Rightarrow> 64 word" where
  "percent_of pct n =
     uint64_of_f64 (f64_mul (f64_div (f64_of_nat (unat pct)) (f64_of_nat 100)) (f64_of_nat n))"

subsection \<open>Rows and tables\<close>

text \<open>
  Modelled from the spec: the row types of the cache (models.go is not among the sources).
  The fields are the ones the handlers read or write and the ones section 3 of the
  specification lists; the options of a start vote and the option results of a vote
  result are kept inside their parent row, as the handlers load them (\<open>Preload\<close>).
\<close>

record Comment =
  c_Key :: string
  c_Token :: string
  c_ParentID :: string
  c_Comment :: string
  c_Signature :: string
  c_PublicKey :: string
  c_CommentID :: string
  c_Receipt :: string
  c_Timestamp :: int
  c_Censored :: bool
  c_Upvotes :: "64 word"
  c_Downvotes :: "64 word"

record LikeComment =
  lc_Token :: string
  lc_CommentID :: string
  lc_Action :: string
  lc_Signature :: string
  lc_PublicKey :: string
  lc_Receipt :: string
  lc_Timestamp :: int

record AuthorizeVote =
  av_Key :: string
  av_Token :: string
  av_Version :: "64 word"
  av_Action :: string
  av_Signature :: string
  av_PublicKey :: string
  av_Receipt :: string
  av_Timestamp :: int

record VoteOption =
  vo_Token :: string
  vo_ID :: string
  vo_Description :: string
  vo_Bits :: "64 word"

record StartVote =
  sv_Token :: string
  sv_Mask :: "64 word"
  sv_Duration :: "32 word"
  sv_QuorumPercentage :: "32 word"
  sv_PassPercentage :: "32 word"
  sv_Options :: "VoteOption list"
  sv_PublicKey :: string
  sv_Signature :: string
  sv_StartBlockHeight :: "64 word"
  sv_StartBlockHash :: string
  sv_EndHeight :: "64 word"
  sv_EligibleTickets :: string
  sv_EligibleTicketCount :: nat

record CastVote =
  cv_Token :: string
  cv_Ticket :: string
  cv_VoteBit :: string
  cv_Signature :: string
  cv_TokenVoteBit :: string

record VoteOptionResult =
  vor_Key :: string
  vor_Votes :: "64 word"
  vor_Option :: VoteOption

record VoteResults =
  vr_Token :: string
  vr_Approved :: bool
  vr_Results :: "VoteOptionResult list"

record Record =
  r_Token :: string
  r_Version :: "64 word"
  r_Status :: int
  r_Timestamp :: int

record Version =
  v_ID :: string
  v_Version :: string
  v_Timestamp :: int

text \<open>
  The database handle \<open>*gorm.DB\<close>: the rows of every table, the names of the tables
  that exist, and the outcome of the store operations to come. A store operation can fail
  for reasons outside the program (connection, constraint, transaction conflict);
  \<open>faults\<close> lists, for each operation to come, whether it fails, and an exhausted list
  means no further failure. An operation on a table that does not exist fails too.
  \<open>ORDER BY\<close> leaves the order among rows of equal sort key to the store: \<open>tie_rank\<close> is
  the store's choice, for each ordered query (named by its label in the source) a rank
  of the tokens that decides among such rows.
\<close>

record gorm_DB =
  comments :: "Comment list"
  like_comments :: "LikeComment list"
  cast_votes :: "CastVote list"
  authorize_votes :: "AuthorizeVote list"
  start_votes :: "StartVote list"
  vote_results :: "VoteResults list"
  records :: "Record list"
  versions :: "Version list"
  tables :: "string list"
  faults :: "bool list"
  tie_rank :: "string \<Rightarrow> string \<Rightarrow> nat"

definition bitumVersion :: string where "bitumVersion = ''1.1''"
definition tableComments :: string where "tableComments = ''comments''"
definition tableCommentLikes :: string where "tableCommentLikes = ''comment_likes''"
definition tableCastVotes :: string where "tableCastVotes = ''cast_votes''"
definition tableAuthorizeVotes :: string where "tableAuthorizeVotes = ''authorize_votes''"
definition tableVoteOptions :: string where "tableVoteOptions = ''vote_options''"
definition tableStartVotes :: string where "tableStartVotes = ''start_votes''"
definition tableVoteOptionResults :: string where
  "tableVoteOptionResults = ''vote_option_results''"
definition tableVoteResults :: string where "tableVoteResults = ''vote_results''"
definition voteOptionIDApproved :: string where "voteOptionIDApproved = ''yes''"

text \<open>
  Modelled from the spec: names and constants declared outside the sources, the table
  names of the cache itself (\<open>records\<close>, \<open>versions\<close>), the plugin identifier, the record
  statuses of politeiad and the authorize action of the plugin.
\<close>

definition tableRecords :: string where "tableRecords = ''records''"
definition tableVersions :: string where "tableVersions = ''versions''"
definition bitumplugin_ID :: string where "bitumplugin_ID = ''bitum''"
definition RecordStatusPublic :: int where "RecordStatusPublic = 4"
definition RecordStatusArchived :: int where "RecordStatusArchived = 6"
definition AuthVoteActionAuthorize :: string where "AuthVoteActionAuthorize = ''authorize''"

text \<open>
  One round trip to the store on the given tables: it consumes one entry of \<open>faults\<close> and
  succeeds when that entry reports no failure and every table exists.
\<close>

definition attempt :: "string list \<Rightarrow> gorm_DB \<Rightarrow> bool \<times> gorm_DB" where
  "attempt tbls db =
     (\<not> (case faults db of [] \<Rightarrow> False | f # _ \<Rightarrow> f) \<and> list_all (\<lambda>t. t \<in> set (tables db)) tbls,
      db\<lparr>faults := tl (faults db)\<rparr>)"

text \<open>A statement that changes rows (\<open>Create\<close>, \<open>Updates\<close>, \<open>Delete\<close>).\<close>

definition db_exec :: "string list \<Rightarrow> (gorm_DB \<Rightarrow> gorm_DB) \<Rightarrow> gorm_DB \<Rightarrow> error option \<times> gorm_DB" where
  "db_exec tbls upd db =
     (case attempt tbls db of
        (True, db') \<Rightarrow> (None, upd db')
      | (False, db') \<Rightarrow> (Some StoreFault, db'))"

text \<open>A query that returns rows (\<open>Find\<close> into a slice, \<open>Raw(...).Rows()\<close>, \<open>Count\<close>).\<close>

definition db_query :: "string list \<Rightarrow> (gorm_DB \<Rightarrow> 'a) \<Rightarrow> gorm_DB \<Rightarrow> (error + 'a) \<times> gorm_DB" where
  "db_query tbls q db =
     (case attempt tbls db of
        (True, db') \<Rightarrow> (Inr (q db'), db')
      | (False, db') \<Rightarrow> (Inl StoreFault, db'))"

text \<open>
  \<open>Find\<close> into a single struct: gorm scans every row of the result into the struct, one
  after the other, so the struct holds the last row; with no row the error is gorm's
  not-found error. The rows of a table are listed in the order the store scans them.
\<close>

definition db_first :: "string list \<Rightarrow> (gorm_DB \<Rightarrow> 'a list) \<Rightarrow> gorm_DB \<Rightarrow> (error + 'a) \<times> gorm_DB" where
  "db_first tbls q db =
     (case attempt tbls db of
        (True, db') \<Rightarrow>
          (case rev (q db') of [] \<Rightarrow> (Inl GormRecordNotFound, db') | x # _ \<Rightarrow> (Inr x, db'))
      | (False, db') \<Rightarrow> (Inl StoreFault, db'))"

text \<open>
  Transactions: \<open>Begin\<close> hands out a handle whose changes stay private, \<open>Commit\<close>
  publishes them unless the store fails, \<open>Rollback\<close> drops them. Both are round trips.
\<close>

definition Begin :: "gorm_DB \<Rightarrow> gorm_DB" where
  "Begin db = db"

definition Commit :: "gorm_DB \<Rightarrow> gorm_DB \<Rightarrow> error option \<times> gorm_DB" where
  "Commit db tx =
     (case attempt [] tx of
        (True, tx') \<Rightarrow> (None, tx')
      | (False, tx') \<Rightarrow> (Some StoreFault, db\<lparr>faults := faults tx'\<rparr>))"

definition Rollback :: "gorm_DB \<Rightarrow> gorm_DB \<Rightarrow> gorm_DB" where
  "Rollback db tx = db\<lparr>faults := tl (faults tx)\<rparr>"

subsection \<open>Plugin payloads\<close>

text \<open>
  Modelled from the spec: the command and reply structures of the bitumplugin package
  (not among the sources), with the fields the handlers use and the ones the conversions
  to rows copy.
\<close>

record bp_NewComment =
  nc_Token :: string
  nc_ParentID :: string
  nc_Comment :: string
  nc_Signature :: string
  nc_PublicKey :: string

record bp_NewCommentReply =
  ncr_CommentID :: string
  ncr_Receipt :: string
  ncr_Timestamp :: int

record bp_Comment =
  bc_Token :: string
  bc_ParentID :: string
  bc_Comment :: string
  bc_Signature :: string
  bc_PublicKey :: string
  bc_CommentID :: string
  bc_Receipt :: string
  bc_Timestamp :: int
  bc_Censored :: bool
  bc_Upvotes :: "64 word"
  bc_Downvotes :: "64 word"

record bp_LikeComment =
  blc_Token :: string
  blc_CommentID :: string
  blc_Action :: string
  blc_Signature :: string
  blc_PublicKey :: string
  blc_Receipt :: string
  blc_Timestamp :: int

record bp_CensorComment =
  cc_Token :: string
  cc_CommentID :: string

record bp_GetComment =
  gc_Token :: string
  gc_CommentID :: string

record bp_CommentLikes =
  cl_Token :: string
  cl_CommentID :: string

record bp_AuthorizeVote =
  bav_Token :: string
  bav_Action :: string
  bav_Signature :: string
  bav_PublicKey :: string
  bav_Receipt :: string

record bp_AuthorizeVoteReply =
  avr_Action :: string
  avr_RecordVersion :: string
  avr_Receipt :: string
  avr_Timestamp :: int

record bp_VoteOption =
  bvo_Id :: string
  bvo_Description :: string
  bvo_Bits :: "64 word"

record bp_StartVote =
  bsv_Token :: string
  bsv_Mask :: "64 word"
  bsv_Duration :: "32 word"
  bsv_QuorumPercentage :: "32 word"
  bsv_PassPercentage :: "32 word"
  bsv_Options :: "bp_VoteOption list"
  bsv_PublicKey :: string
  bsv_Signature :: string

record bp_StartVoteReply =
  svr_StartBlockHeight :: "64 word"
  svr_StartBlockHash :: string
  svr_EndHeight :: string
  svr_EligibleTickets :: "string list"

record bp_CastVote =
  bcv_Token :: string
  bcv_Ticket :: string
  bcv_VoteBit :: string
  bcv_Signature :: string

record bp_InventoryReply =
  ir_Comments :: "bp_Comment list"
  ir_LikeComments :: "bp_LikeComment list"
  ir_AuthorizeVotes :: "bp_AuthorizeVote list"
  ir_AuthorizeVoteReplies :: "bp_AuthorizeVoteReply list"
  ir_StartVoteTuples :: "(bp_StartVote \<times> bp_StartVoteReply) list"
  ir_CastVotes :: "bp_CastVote list"

record bp_TokenInventoryReply =
  tir_Pre :: "string list"
  tir_Active :: "string list"
  tir_Approved :: "string list"
  tir_Rejected :: "string list"
  tir_Abandoned :: "string list"

record bp_VoteOptionResult =
  bvor_ID :: string
  bvor_Description :: string
  bvor_Bits :: "64 word"
  bvor_Votes :: "64 word"

record bp_VoteSummaryReply =
  vsr_Authorized :: bool
  vsr_EndHeight :: string
  vsr_EligibleTicketCount :: nat
  vsr_QuorumPercentage :: "32 word"
  vsr_PassPercentage :: "32 word"
  vsr_Results :: "bp_VoteOptionResult list"

text \<open>
  The payload codec of the bitumplugin package is a parameter of the handlers: one decoder
  for each command or reply structure, one encoder for each reply. A command that carries
  a token only, or a best block only, decodes to that value. An encoder takes the rows the
  handler has collected (the conversion of rows to plugin structures happens on the way
  and is outside the sources as well).
\<close>

record codec =
  DecodeNewComment :: "string \<Rightarrow> error + bp_NewComment"
  DecodeNewCommentReply :: "string \<Rightarrow> error + bp_NewCommentReply"
  DecodeLikeComment :: "string \<Rightarrow> error + bp_LikeComment"
  DecodeCensorComment :: "string \<Rightarrow> error + bp_CensorComment"
  DecodeGetComment :: "string \<Rightarrow> error + bp_GetComment"
  DecodeGetComments :: "string \<Rightarrow> error + string"
  DecodeCommentLikes :: "string \<Rightarrow> error + bp_CommentLikes"
  DecodeGetProposalCommentsLikes :: "string \<Rightarrow> error + string"
  DecodeAuthorizeVote :: "string \<Rightarrow> error + bp_AuthorizeVote"
  DecodeAuthorizeVoteReply :: "string \<Rightarrow> error + bp_AuthorizeVoteReply"
  DecodeStartVote :: "string \<Rightarrow> error + bp_StartVote"
  DecodeStartVoteReply :: "string \<Rightarrow> error + bp_StartVoteReply"
  DecodeVoteDetails :: "string \<Rightarrow> error + string"
  DecodeBallot :: "string \<Rightarrow> error + bp_CastVote list"
  DecodeVoteResults :: "string \<Rightarrow> error + string"
  DecodeLoadVoteResults :: "string \<Rightarrow> error + 64 word"
  DecodeTokenInventory :: "string \<Rightarrow> error + 64 word"
  DecodeVoteSummary :: "string \<Rightarrow> error + string"
  DecodeInventoryReply :: "string \<Rightarrow> error + bp_InventoryReply"
  EncodeGetCommentReply :: "Comment \<Rightarrow> error + string"
  EncodeGetCommentsReply :: "Comment list \<Rightarrow> error + string"
  EncodeCommentLikesReply :: "LikeComment list \<Rightarrow> error + string"
  EncodeGetProposalCommentsLikesReply :: "LikeComment list \<Rightarrow> error + string"
  EncodeVoteDetailsReply :: "AuthorizeVote \<Rightarrow> StartVote \<Rightarrow> error + string"
  EncodeVoteResultsReply :: "StartVote \<Rightarrow> CastVote list \<Rightarrow> error + string"
  EncodeInventoryReply :: "Comment list \<Rightarrow> error + string"
  EncodeLoadVoteResultsReply :: "error + string"
  EncodeTokenInventoryReply :: "bp_TokenInventoryReply \<Rightarrow> error + string"
  EncodeVoteSummaryReply :: "bp_VoteSummaryReply \<Rightarrow> error + string"

text \<open>
  Modelled from the spec: the conversions of plugin structures to rows (convert.go is not
  among the sources). A comment is keyed by token and comment id, an authorize vote by
  token and record version, a cast vote carries token and vote bit joined, and the
  eligible tickets of a start vote are stored as one comma-separated string.
\<close>

definition convertNewCommentFromBitum :: "bp_NewComment \<Rightarrow> bp_NewCommentReply \<Rightarrow> Comment" where
  "convertNewCommentFromBitum nc ncr =
     \<lparr>c_Key = nc_Token nc @ ncr_CommentID ncr, c_Token = nc_Token nc,
      c_ParentID = nc_ParentID nc, c_Comment = nc_Comment nc, c_Signature = nc_Signature nc,
      c_PublicKey = nc_PublicKey nc, c_CommentID = ncr_CommentID ncr,
      c_Receipt = ncr_Receipt ncr, c_Timestamp = ncr_Timestamp ncr, c_Censored = False,
      c_Upvotes = 0, c_Downvotes = 0\<rparr>"

definition convertCommentFromBitum :: "bp_Comment \<Rightarrow> Comment" where
  "convertCommentFromBitum c =
     \<lparr>c_Key = bc_Token c @ bc_CommentID c, c_Token = bc_Token c, c_ParentID = bc_ParentID c,
      c_Comment = bc_Comment c, c_Signature = bc_Signature c, c_PublicKey = bc_PublicKey c,
      c_CommentID = bc_CommentID c, c_Receipt = bc_Receipt c, c_Timestamp = bc_Timestamp c,
      c_Censored = bc_Censored c, c_Upvotes = bc_Upvotes c, c_Downvotes = bc_Downvotes c\<rparr>"

definition convertLikeCommentFromBitum :: "bp_LikeComment \<Rightarrow> LikeComment" where
  "convertLikeCommentFromBitum lc =
     \<lparr>lc_Token = blc_Token lc, lc_CommentID = blc_CommentID lc, lc_Action = blc_Action lc,
      lc_Signature = blc_Signature lc, lc_PublicKey = blc_PublicKey lc,
      lc_Receipt = blc_Receipt lc, lc_Timestamp = blc_Timestamp lc\<rparr>"

definition convertAuthorizeVoteFromBitum ::
  "bp_AuthorizeVote \<Rightarrow> bp_AuthorizeVoteReply \<Rightarrow> 64 word \<Rightarrow> AuthorizeVote" where
  "convertAuthorizeVoteFromBitum av avr version =
     \<lparr>av_Key = bav_Token av @ avr_RecordVersion avr, av_Token = bav_Token av,
      av_Version = version, av_Action = bav_Action av, av_Signature = bav_Signature av,
      av_PublicKey = bav_PublicKey av, av_Receipt = avr_Receipt avr,
      av_Timestamp = avr_Timestamp avr\<rparr>"

definition convertVoteOptionFromBitum :: "string \<Rightarrow> bp_VoteOption \<Rightarrow> VoteOption" where
  "convertVoteOptionFromBitum token vo =
     \<lparr>vo_Token = token, vo_ID = bvo_Id vo, vo_Description = bvo_Description vo,
      vo_Bits = bvo_Bits vo\<rparr>"

definition strings_Join :: "string list \<Rightarrow> string \<Rightarrow> string" where
  "strings_Join xs sep = (case xs of [] \<Rightarrow> [] | x # ys \<Rightarrow> x @ concat (map (\<lambda>y. sep @ y) ys))"

definition convertStartVoteFromBitum ::
  "bp_StartVote \<Rightarrow> bp_StartVoteReply \<Rightarrow> 64 word \<Rightarrow> StartVote" where
  "convertStartVoteFromBitum sv svr endHeight =
     \<lparr>sv_Token = bsv_Token sv, sv_Mask = bsv_Mask sv, sv_Duration = bsv_Duration sv,
      sv_QuorumPercentage = bsv_QuorumPercentage sv, sv_PassPercentage = bsv_PassPercentage sv,
      sv_Options = map (convertVoteOptionFromBitum (bsv_Token sv)) (bsv_Options sv),
      sv_PublicKey = bsv_PublicKey sv, sv_Signature = bsv_Signature sv,
      sv_StartBlockHeight = svr_StartBlockHeight svr, sv_StartBlockHash = svr_StartBlockHash svr,
      sv_EndHeight = endHeight,
      sv_EligibleTickets = strings_Join (svr_EligibleTickets svr) '','',
      sv_EligibleTicketCount = length (svr_EligibleTickets svr)\<rparr>"

definition convertCastVoteFromBitum :: "bp_CastVote \<Rightarrow> CastVote" where
  "convertCastVoteFromBitum cv =
     \<lparr>cv_Token = bcv_Token cv, cv_Ticket = bcv_Ticket cv, cv_VoteBit = bcv_VoteBit cv,
      cv_Signature = bcv_Signature cv, cv_TokenVoteBit = bcv_Token cv @ bcv_VoteBit cv\<rparr>"

definition convertVoteOptionResultToBitum :: "VoteOptionResult \<Rightarrow> bp_VoteOptionResult" where
  "convertVoteOptionResultToBitum r =
     \<lparr>bvor_ID = vo_ID (vor_Option r), bvor_Description = vo_Description (vor_Option r),
      bvor_Bits = vo_Bits (vor_Option r), bvor_Votes = vor_Votes r\<rparr>"

text \<open>The zero values of \<open>var av AuthorizeVote\<close> and \<open>var sv StartVote\<close>.\<close>

definition zero_AuthorizeVote :: AuthorizeVote where
  "zero_AuthorizeVote =
     \<lparr>av_Key = [], av_Token = [], av_Version = 0, av_Action = [], av_Signature = [],
      av_PublicKey = [], av_Receipt = [], av_Timestamp = 0\<rparr>"

definition zero_StartVote :: StartVote where
  "zero_StartVote =
     \<lparr>sv_Token = [], sv_Mask = 0, sv_Duration = 0, sv_QuorumPercentage = 0,
      sv_PassPercentage = 0, sv_Options = [], sv_PublicKey = [], sv_Signature = [],
      sv_StartBlockHeight = 0, sv_StartBlockHash = [], sv_EndHeight = 0,
      sv_EligibleTickets = [], sv_EligibleTicketCount = 0\<rparr>"

subsection \<open>Comments\<close>

type_synonym reply = "string \<times> error option"

definition newComment :: "gorm_DB \<Rightarrow> Comment \<Rightarrow> error option \<times> gorm_DB" where
  "newComment db c = db_exec [tableComments] (\<lambda>d. d\<lparr>comments := comments d @ [c]\<rparr>) db"

definition cmdNewComment :: "codec \<Rightarrow> gorm_DB \<Rightarrow> string \<Rightarrow> string \<Rightarrow> reply \<times> gorm_DB" where
  "cmdNewComment cd d cmdPayload replyPayload =
     (case DecodeNewComment cd cmdPayload of
        Inl err \<Rightarrow> (([], Some err), d)
      | Inr nc \<Rightarrow>
          (case DecodeNewCommentReply cd replyPayload of
             Inl err \<Rightarrow> (([], Some err), d)
           | Inr ncr \<Rightarrow>
               (case newComment d (convertNewCommentFromBitum nc ncr) of
                  (err, d') \<Rightarrow> ((replyPayload, err), d'))))"

definition newLikeComment :: "gorm_DB \<Rightarrow> LikeComment \<Rightarrow> error option \<times> gorm_DB" where
  "newLikeComment db lc =
     db_exec [tableCommentLikes] (\<lambda>d. d\<lparr>like_comments := like_comments d @ [lc]\<rparr>) db"

definition cmdLikeComment :: "codec \<Rightarrow> gorm_DB \<Rightarrow> string \<Rightarrow> string \<Rightarrow> reply \<times> gorm_DB" where
  "cmdLikeComment cd d cmdPayload replyPayload =
     (case DecodeLikeComment cd cmdPayload of
        Inl err \<Rightarrow> (([], Some err), d)
      | Inr dlc \<Rightarrow>
          (case newLikeComment d (convertLikeCommentFromBitum dlc) of
             (err, d') \<Rightarrow> ((replyPayload, err), d')))"

text \<open>
  \<open>Model(&c).Updates(...)\<close> carries no \<open>Where\<close>: gorm restricts the update to the primary
  key of \<open>c\<close> when that key is not blank, and to nothing when it is blank. So the two
  columns are written in every row whose key is the key of \<open>c\<close>, and in every row of the
  table when the key of \<open>c\<close> is the empty string.
\<close>

definition censor :: "string \<Rightarrow> Comment \<Rightarrow> Comment" where
  "censor key c =
     (if key = [] \<or> c_Key c = key then c\<lparr>c_Comment := [], c_Censored := True\<rparr> else c)"

definition cmdCensorComment :: "codec \<Rightarrow> gorm_DB \<Rightarrow> string \<Rightarrow> string \<Rightarrow> reply \<times> gorm_DB" where
  "cmdCensorComment cd d cmdPayload replyPayload =
     (case DecodeCensorComment cd cmdPayload of
        Inl err \<Rightarrow> (([], Some err), d)
      | Inr cc \<Rightarrow>
          (case db_exec [tableComments]
                  (\<lambda>db. db\<lparr>comments := map (censor (cc_Token cc @ cc_CommentID cc)) (comments db)\<rparr>) d of
             (err, d') \<Rightarrow> ((replyPayload, err), d')))"

text \<open>
  \<open>Find(&c)\<close> with the key of \<open>c\<close> set selects by that key; with a blank key gorm adds no
  condition and the query returns every comment.
\<close>

definition cmdGetComment :: "codec \<Rightarrow> gorm_DB \<Rightarrow> string \<Rightarrow> reply \<times> gorm_DB" where
  "cmdGetComment cd d payload =
     (case DecodeGetComment cd payload of
        Inl err \<Rightarrow> (([], Some err), d)
      | Inr gc \<Rightarrow>
          (case db_first [tableComments]
                  (\<lambda>db. filter (\<lambda>c. gc_Token gc @ gc_CommentID gc = [] \<or>
                                      c_Key c = gc_Token gc @ gc_CommentID gc) (comments db)) d of
             (Inl err, d') \<Rightarrow>
               (([], Some (if err = GormRecordNotFound then ErrRecordNotFound else err)), d')
           | (Inr c, d') \<Rightarrow>
               (case EncodeGetCommentReply cd c of
                  Inl err \<Rightarrow> (([], Some err), d')
                | Inr gcrb \<Rightarrow> ((gcrb, None), d'))))"

definition cmdGetComments :: "codec \<Rightarrow> gorm_DB \<Rightarrow> string \<Rightarrow> reply \<times> gorm_DB" where
  "cmdGetComments cd d payload =
     (case DecodeGetComments cd payload of
        Inl err \<Rightarrow> (([], Some err), d)
      | Inr token \<Rightarrow>
          (case db_query [tableComments] (\<lambda>db. filter (\<lambda>c. c_Token c = token) (comments db)) d of
             (Inl err, d') \<Rightarrow> (([], Some err), d')
           | (Inr cs, d') \<Rightarrow>
               (case EncodeGetCommentsReply cd cs of
                  Inl err \<Rightarrow> (([], Some err), d')
                | Inr gcrb \<Rightarrow> ((gcrb, None), d'))))"

definition cmdCommentLikes :: "codec \<Rightarrow> gorm_DB \<Rightarrow> string \<Rightarrow> reply \<times> gorm_DB" where
  "cmdCommentLikes cd d payload =
     (case DecodeCommentLikes cd payload of
        Inl err \<Rightarrow> (([], Some err), d)
      | Inr cl \<Rightarrow>
          (case db_query [tableCommentLikes]
                  (\<lambda>db. filter (\<lambda>l. lc_Token l = cl_Token cl \<and> lc_CommentID l = cl_CommentID cl)
                            (like_comments db)) d of
             (Inl err, d') \<Rightarrow> (([], Some err), d')
           | (Inr likes, d') \<Rightarrow>
               (case EncodeCommentLikesReply cd likes of
                  Inl err \<Rightarrow> (([], Some err), d')
                | Inr clrb \<Rightarrow> ((clrb, None), d'))))"

definition cmdProposalCommentsLikes :: "codec \<Rightarrow> gorm_DB \<Rightarrow> string \<Rightarrow> reply \<times> gorm_DB" where
  "cmdProposalCommentsLikes cd d payload =
     (case DecodeGetProposalCommentsLikes cd payload of
        Inl err \<Rightarrow> (([], Some err), d)
      | Inr token \<Rightarrow>
          (case db_query [tableCommentLikes]
                  (\<lambda>db. filter (\<lambda>l. lc_Token l = token) (like_comments db)) d of
             (Inl err, d') \<Rightarrow> (([], Some err), d')
           | (Inr likes, d') \<Rightarrow>
               (case EncodeGetProposalCommentsLikesReply cd likes of
                  Inl err \<Rightarrow> (([], Some err), d')
                | Inr clrb \<Rightarrow> ((clrb, None), d'))))"

definition cmdInventory :: "codec \<Rightarrow> gorm_DB \<Rightarrow> reply \<times> gorm_DB" where
  "cmdInventory cd d =
     (case db_query [tableComments] comments d of
        (Inl err, d') \<Rightarrow> (([], Some err), d')
      | (Inr c, d') \<Rightarrow>
          (case EncodeInventoryReply cd c of
             Inl err \<Rightarrow> (([], Some err), d')
           | Inr irb \<Rightarrow> ((irb, None), d')))"

subsection \<open>Authorize vote, start vote, ballot\<close>

definition newAuthorizeVote :: "gorm_DB \<Rightarrow> AuthorizeVote \<Rightarrow> error option \<times> gorm_DB" where
  "newAuthorizeVote tx av =
     (case db_exec [tableAuthorizeVotes]
             (\<lambda>d. d\<lparr>authorize_votes := filter (\<lambda>a. av_Key a \<noteq> av_Key av) (authorize_votes d)\<rparr>) tx of
        (Some err, tx1) \<Rightarrow> (Some (Errorf ''delete authorize vote'' err), tx1)
      | (None, tx1) \<Rightarrow>
          (case db_exec [tableAuthorizeVotes]
                  (\<lambda>d. d\<lparr>authorize_votes := authorize_votes d @ [av]\<rparr>) tx1 of
             (Some err, tx2) \<Rightarrow> (Some (Errorf ''create authorize vote'' err), tx2)
           | (None, tx2) \<Rightarrow> (None, tx2)))"

definition cmdAuthorizeVote :: "codec \<Rightarrow> gorm_DB \<Rightarrow> string \<Rightarrow> string \<Rightarrow> reply \<times> gorm_DB" where
  "cmdAuthorizeVote cd d cmdPayload replyPayload =
     (case DecodeAuthorizeVote cd cmdPayload of
        Inl err \<Rightarrow> (([], Some err), d)
      | Inr av \<Rightarrow>
          (case DecodeAuthorizeVoteReply cd replyPayload of
             Inl err \<Rightarrow> (([], Some err), d)
           | Inr avr \<Rightarrow>
               (case ParseUint (avr_RecordVersion avr) of
                  Inl err \<Rightarrow> (([], Some (Errorf ''parse version'' err)), d)
                | Inr v \<Rightarrow>
                    (case newAuthorizeVote (Begin d) (convertAuthorizeVoteFromBitum av avr v) of
                       (Some err, tx) \<Rightarrow> (([], Some (Errorf ''newAuthorizeVote'' err)), Rollback d tx)
                     | (None, tx) \<Rightarrow>
                         (case Commit d tx of
                            (Some err, d') \<Rightarrow> (([], Some (Errorf ''commit transaction'' err)), d')
                          | (None, d') \<Rightarrow> ((replyPayload, None), d'))))))"

definition newStartVote :: "gorm_DB \<Rightarrow> StartVote \<Rightarrow> error option \<times> gorm_DB" where
  "newStartVote db sv =
     db_exec [tableStartVotes, tableVoteOptions] (\<lambda>d. d\<lparr>start_votes := start_votes d @ [sv]\<rparr>) db"

definition cmdStartVote :: "codec \<Rightarrow> gorm_DB \<Rightarrow> string \<Rightarrow> string \<Rightarrow> reply \<times> gorm_DB" where
  "cmdStartVote cd d cmdPayload replyPayload =
     (case DecodeStartVote cd cmdPayload of
        Inl err \<Rightarrow> (([], Some err), d)
      | Inr sv \<Rightarrow>
          (case DecodeStartVoteReply cd replyPayload of
             Inl err \<Rightarrow> (([], Some err), d)
           | Inr svr \<Rightarrow>
               (case ParseUint (svr_EndHeight svr) of
                  Inl err \<Rightarrow> (([], Some (Errorf ''parse end height'' err)), d)
                | Inr endHeight \<Rightarrow>
                    (case newStartVote d (convertStartVoteFromBitum sv svr endHeight) of
                       (Some err, d') \<Rightarrow> (([], Some err), d')
                     | (None, d') \<Rightarrow> ((replyPayload, None), d')))))"

definition newCastVote :: "gorm_DB \<Rightarrow> CastVote \<Rightarrow> error option \<times> gorm_DB" where
  "newCastVote db cv = db_exec [tableCastVotes] (\<lambda>d. d\<lparr>cast_votes := cast_votes d @ [cv]\<rparr>) db"

text \<open>The loop of \<open>cmdNewBallot\<close> over the votes of the ballot; it stops at the first error.\<close>

fun ballot_loop :: "gorm_DB \<Rightarrow> bp_CastVote list \<Rightarrow> error option \<times> gorm_DB" where
  "ballot_loop tx [] = (None, tx)"
| "ballot_loop tx (v # vs) =
     (case newCastVote tx (convertCastVoteFromBitum v) of
        (Some err, tx') \<Rightarrow> (Some err, tx')
      | (None, tx') \<Rightarrow> ballot_loop tx' vs)"

definition cmdNewBallot :: "codec \<Rightarrow> gorm_DB \<Rightarrow> string \<Rightarrow> string \<Rightarrow> reply \<times> gorm_DB" where
  "cmdNewBallot cd d cmdPayload replyPayload =
     (case DecodeBallot cd cmdPayload of
        Inl err \<Rightarrow> (([], Some err), d)
      | Inr votes \<Rightarrow>
          (case ballot_loop (Begin d) votes of
             (Some err, tx) \<Rightarrow> (([], Some err), Rollback d tx)
           | (None, tx) \<Rightarrow>
               (case Commit d tx of
                  (Some err, d') \<Rightarrow> (([], Some (Errorf ''commit transaction failed'' err)), d')
                | (None, d') \<Rightarrow> ((replyPayload, None), d'))))"

text \<open>
  The most recent version of a record: \<open>Order("records.version desc").Limit(1).Find(&r)\<close>.
\<close>

definition latest_record :: "string \<Rightarrow> gorm_DB \<Rightarrow> Record list" where
  "latest_record token db =
     take 1 (rev (sort_key r_Version (filter (\<lambda>r. r_Token r = token) (records db))))"

text \<open>A lookup that may find nothing: gorm's not-found error leaves the zero value.\<close>

definition or_zero :: "'a \<Rightarrow> error + 'a \<Rightarrow> error + 'a" where
  "or_zero z r = (if r = Inl GormRecordNotFound then Inr z else r)"

definition cmdVoteDetails :: "codec \<Rightarrow> gorm_DB \<Rightarrow> string \<Rightarrow> reply \<times> gorm_DB" where
  "cmdVoteDetails cd d payload =
     (case DecodeVoteDetails cd payload of
        Inl err \<Rightarrow> (([], None), d)
      | Inr token \<Rightarrow>
          (case db_first [tableRecords] (latest_record token) d of
             (Inl err, d1) \<Rightarrow>
               (([], Some (if err = GormRecordNotFound then ErrRecordNotFound else err)), d1)
           | (Inr r, d1) \<Rightarrow>
               (case db_first [tableAuthorizeVotes]
                       (\<lambda>db. filter (\<lambda>a. av_Key a = token @ FormatUint (r_Version r) 10)
                                 (authorize_votes db)) d1 of
                  (avl, d2) \<Rightarrow>
                    (case or_zero zero_AuthorizeVote avl of
                       Inl err \<Rightarrow> (([], Some (Errorf ''authorize vote lookup failed'' err)), d2)
                     | Inr av \<Rightarrow>
                         (case db_first [tableStartVotes, tableVoteOptions]
                                 (\<lambda>db. filter (\<lambda>s. sv_Token s = token) (start_votes db)) d2 of
                            (svl, d3) \<Rightarrow>
                              (case or_zero zero_StartVote svl of
                                 Inl err \<Rightarrow> (([], Some (Errorf ''start vote lookup failed'' err)), d3)
                               | Inr sv \<Rightarrow>
                                   (case EncodeVoteDetailsReply cd av sv of
                                      Inl err \<Rightarrow> (([], Some err), d3)
                                    | Inr vdrb \<Rightarrow> ((vdrb, None), d3))))))))"

definition cmdProposalVotes :: "codec \<Rightarrow> gorm_DB \<Rightarrow> string \<Rightarrow> reply \<times> gorm_DB" where
  "cmdProposalVotes cd d payload =
     (case DecodeVoteResults cd payload of
        Inl err \<Rightarrow> (([], Some err), d)
      | Inr token \<Rightarrow>
          (case db_first [tableStartVotes, tableVoteOptions]
                  (\<lambda>db. filter (\<lambda>s. sv_Token s = token) (start_votes db)) d of
             (svl, d1) \<Rightarrow>
               (case or_zero zero_StartVote svl of
                  Inl err \<Rightarrow> (([], Some (Errorf ''start vote lookup failed'' err)), d1)
                | Inr sv \<Rightarrow>
                    (case db_query [tableCastVotes]
                            (\<lambda>db. filter (\<lambda>v. cv_Token v = token) (cast_votes db)) d1 of
                       (cvl, d2) \<Rightarrow>
                         (case or_zero [] cvl of
                            Inl err \<Rightarrow> (([], Some (Errorf ''cast votes lookup failed'' err)), d2)
                          | Inr cv \<Rightarrow>
                              (case EncodeVoteResultsReply cd sv cv of
                                 Inl err \<Rightarrow> (([], Some err), d2)
                               | Inr vrrb \<Rightarrow> ((vrrb, None), d2)))))))"

subsection \<open>Vote results\<close>

text \<open>The tally of \<open>newVoteResults\<close>: a map from vote bit to the number of cast votes.\<close>

definition tally_votes :: "CastVote list \<Rightarrow> string \<Rightarrow> 64 word" where
  "tally_votes cv = foldl (\<lambda>tally v. tally(cv_VoteBit v := tally (cv_VoteBit v) + 1)) (\<lambda>_. 0) cv"

definition option_results :: "string \<Rightarrow> StartVote \<Rightarrow> CastVote list \<Rightarrow> VoteOptionResult list" where
  "option_results token sv cv =
     map (\<lambda>v. \<lparr>vor_Key = token @ FormatUint (vo_Bits v) 16,
               vor_Votes = tally_votes cv (FormatUint (vo_Bits v) 16),
               vor_Option = v\<rparr>) (sv_Options sv)"

definition total_votes :: "VoteOptionResult list \<Rightarrow> 64 word" where
  "total_votes results = foldl (\<lambda>tot v. tot + vor_Votes v) 0 results"

definition eligible :: "StartVote \<Rightarrow> nat" where
  "eligible sv = length (strings_Split (sv_EligibleTickets sv) CHR '','')"

definition quorum :: "StartVote \<Rightarrow> 64 word" where
  "quorum sv = percent_of (sv_QuorumPercentage sv) (eligible sv)"

definition pass :: "StartVote \<Rightarrow> 64 word \<Rightarrow> 64 word" where
  "pass sv tot = percent_of (sv_PassPercentage sv) (unat tot)"

definition approvedVotes :: "VoteOptionResult list \<Rightarrow> 64 word" where
  "approvedVotes results =
     foldl (\<lambda>a v. if vo_ID (vor_Option v) = voteOptionIDApproved then vor_Votes v else a) 0 results"

definition vote_approved :: "StartVote \<Rightarrow> VoteOptionResult list \<Rightarrow> bool" where
  "vote_approved sv results =
     (if total_votes results < quorum sv then False
      else if approvedVotes results < pass sv (total_votes results) then False
      else True)"

definition newVoteResults :: "gorm_DB \<Rightarrow> string \<Rightarrow> error option \<times> gorm_DB" where
  "newVoteResults d token =
     (case db_first [tableStartVotes, tableVoteOptions]
             (\<lambda>db. filter (\<lambda>s. sv_Token s = token) (start_votes db)) d of
        (Inl err, d1) \<Rightarrow> (Some (Errorf ''lookup start vote'' err), d1)
      | (Inr sv, d1) \<Rightarrow>
          (case db_query [tableCastVotes] (\<lambda>db. filter (\<lambda>v. cv_Token v = token) (cast_votes db)) d1 of
             (cvl, d2) \<Rightarrow>
               (case or_zero [] cvl of
                  Inl err \<Rightarrow> (Some (Errorf ''lookup cast votes'' err), d2)
                | Inr cv \<Rightarrow>
                    (case db_exec [tableVoteResults, tableVoteOptionResults]
                            (\<lambda>db. db\<lparr>vote_results := vote_results db @
                                      [\<lparr>vr_Token = token,
                                        vr_Approved = vote_approved sv (option_results token sv cv),
                                        vr_Results = option_results token sv cv\<rparr>]\<rparr>) d2 of
                       (Some err, d3) \<Rightarrow> (Some (Errorf ''new vote results'' err), d3)
                     | (None, d3) \<Rightarrow> (None, d3)))))"

text \<open>
  The query of \<open>cmdLoadVoteResults\<close> and \<open>cmdTokenInventory\<close>: start votes that ended at
  or before the best block, left-joined with the vote results, kept where no vote result
  matches.
\<close>

definition finished_without_results :: "64 word \<Rightarrow> gorm_DB \<Rightarrow> string list" where
  "finished_without_results bestBlock db =
     map sv_Token
       (filter (\<lambda>s. sv_EndHeight s \<le> bestBlock \<and>
                     \<not> list_ex (\<lambda>r. vr_Token r = sv_Token s) (vote_results db))
          (start_votes db))"

fun load_loop :: "gorm_DB \<Rightarrow> string list \<Rightarrow> error option \<times> gorm_DB" where
  "load_loop d [] = (None, d)"
| "load_loop d (v # vs) =
     (case newVoteResults d v of
        (Some err, d') \<Rightarrow> (Some (Errorf (''newVoteResults '' @ v) err), d')
      | (None, d') \<Rightarrow> load_loop d' vs)"

definition cmdLoadVoteResults :: "codec \<Rightarrow> gorm_DB \<Rightarrow> string \<Rightarrow> reply \<times> gorm_DB" where
  "cmdLoadVoteResults cd d payload =
     (case DecodeLoadVoteResults cd payload of
        Inl err \<Rightarrow> (([], Some err), d)
      | Inr bestBlock \<Rightarrow>
          (case db_query [tableStartVotes, tableVoteResults] (finished_without_results bestBlock) d of
             (Inl err, d1) \<Rightarrow> (([], Some (Errorf ''no vote results'' err)), d1)
           | (Inr tokens, d1) \<Rightarrow>
               (case load_loop d1 tokens of
                  (Some err, d2) \<Rightarrow> (([], Some err), d2)
                | (None, d2) \<Rightarrow>
                    (case EncodeLoadVoteResultsReply cd of
                       Inl err \<Rightarrow> (([], Some err), d2)
                     | Inr reply \<Rightarrow> ((reply, None), d2)))))"

subsection \<open>Token inventory\<close>

text \<open>
  The five queries of \<open>cmdTokenInventory\<close>. \<open>ORDER BY k DESC\<close> puts the rows in
  descending order of \<open>k\<close>; among rows of equal \<open>k\<close> the order is the store's choice,
  here the descending order of the rank \<open>rank\<close> the store gives them (the queries return
  tokens only, so a rank of the tokens reaches every order the store can return).
\<close>

definition order_desc :: "('a \<Rightarrow> nat) \<Rightarrow> ('a \<Rightarrow> 'k::linorder) \<Rightarrow> 'a list \<Rightarrow> 'a list" where
  "order_desc rank k xs = rev (sort_key k (sort_key rank xs))"

definition pre_tokens :: "gorm_DB \<Rightarrow> string list" where
  "pre_tokens db =
     map r_Token
       (order_desc (\<lambda>a. tie_rank db ''pre'' (r_Token a)) r_Timestamp
          (filter (\<lambda>a. \<not> list_ex (\<lambda>b. r_Token a = r_Token b \<and> r_Version a < r_Version b) (records db) \<and>
                        \<not> list_ex (\<lambda>s. r_Token a = sv_Token s) (start_votes db) \<and>
                        r_Status a = RecordStatusPublic)
             (records db)))"

definition active_tokens :: "64 word \<Rightarrow> gorm_DB \<Rightarrow> string list" where
  "active_tokens bestBlock db =
     map sv_Token
       (order_desc (\<lambda>s. tie_rank db ''active'' (sv_Token s)) sv_EndHeight
          (filter (\<lambda>s. bestBlock < sv_EndHeight s) (start_votes db)))"

text \<open>The inner join of vote results and start votes on the token.\<close>

definition results_join :: "gorm_DB \<Rightarrow> (VoteResults \<times> StartVote) list" where
  "results_join db =
     concat (map (\<lambda>r. map (\<lambda>s. (r, s)) (filter (\<lambda>s. vr_Token r = sv_Token s) (start_votes db)))
               (vote_results db))"

definition approved_tokens :: "gorm_DB \<Rightarrow> string list" where
  "approved_tokens db =
     map (\<lambda>(r, s). vr_Token r)
       (order_desc (\<lambda>(r, s). tie_rank db ''approved'' (vr_Token r)) (\<lambda>(r, s). sv_EndHeight s)
          (filter (\<lambda>(r, s). vr_Approved r) (results_join db)))"

definition rejected_tokens :: "gorm_DB \<Rightarrow> string list" where
  "rejected_tokens db =
     map (\<lambda>(r, s). vr_Token r)
       (order_desc (\<lambda>(r, s). tie_rank db ''rejected'' (vr_Token r)) (\<lambda>(r, s). sv_EndHeight s)
          (filter (\<lambda>(r, s). \<not> vr_Approved r) (results_join db)))"

definition abandoned_tokens :: "gorm_DB \<Rightarrow> string list" where
  "abandoned_tokens db =
     map r_Token
       (order_desc (\<lambda>r. tie_rank db ''abandoned'' (r_Token r)) r_Timestamp
          (filter (\<lambda>r. r_Status r = RecordStatusArchived) (records db)))"

definition cmdTokenInventory :: "codec \<Rightarrow> gorm_DB \<Rightarrow> string \<Rightarrow> reply \<times> gorm_DB" where
  "cmdTokenInventory cd d payload =
     (case DecodeTokenInventory cd payload of
        Inl err \<Rightarrow> (([], Some err), d)
      | Inr bestBlock \<Rightarrow>
     (case db_query [tableStartVotes, tableVoteResults] (finished_without_results bestBlock) d of
        (Inl err, d1) \<Rightarrow> (([], Some (Errorf ''no vote results'' err)), d1)
      | (Inr missing, d1) \<Rightarrow>
     if 0 < length missing then (([], Some ErrRecordNotFound), d1) else
     (case db_query [tableRecords, tableStartVotes] pre_tokens d1 of
        (Inl err, d2) \<Rightarrow> (([], Some (Errorf ''pre'' err)), d2)
      | (Inr pre, d2) \<Rightarrow>
     (case db_query [tableStartVotes] (active_tokens bestBlock) d2 of
        (Inl err, d3) \<Rightarrow> (([], Some (Errorf ''active'' err)), d3)
      | (Inr active, d3) \<Rightarrow>
     (case db_query [tableVoteResults, tableStartVotes] approved_tokens d3 of
        (Inl err, d4) \<Rightarrow> (([], Some (Errorf ''approved'' err)), d4)
      | (Inr approved, d4) \<Rightarrow>
     (case db_query [tableVoteResults, tableStartVotes] rejected_tokens d4 of
        (Inl err, d5) \<Rightarrow> (([], Some (Errorf ''rejected'' err)), d5)
      | (Inr rejected, d5) \<Rightarrow>
     (case db_query [tableRecords] abandoned_tokens d5 of
        (Inl err, d6) \<Rightarrow> (([], Some (Errorf ''abandoned'' err)), d6)
      | (Inr abandoned, d6) \<Rightarrow>
     (case EncodeTokenInventoryReply cd
             \<lparr>tir_Pre = pre, tir_Active = active, tir_Approved = approved,
              tir_Rejected = rejected, tir_Abandoned = abandoned\<rparr> of
        Inl err \<Rightarrow> (([], Some err), d6)
      | Inr reply \<Rightarrow> ((reply, None), d6)))))))))"

subsection \<open>Vote summary\<close>

text \<open>The label \<open>sendReply\<close> of \<open>cmdVoteSummary\<close>.\<close>

definition sendReply ::
  "codec \<Rightarrow> AuthorizeVote \<Rightarrow> StartVote \<Rightarrow> bp_VoteOptionResult list \<Rightarrow> gorm_DB \<Rightarrow> reply \<times> gorm_DB" where
  "sendReply cd av sv results d =
     (case EncodeVoteSummaryReply cd
             \<lparr>vsr_Authorized = (av_Action av = AuthVoteActionAuthorize),
              vsr_EndHeight = (if sv_EndHeight sv \<noteq> 0 then FormatUint (sv_EndHeight sv) 10 else []),
              vsr_EligibleTicketCount = sv_EligibleTicketCount sv,
              vsr_QuorumPercentage = sv_QuorumPercentage sv,
              vsr_PassPercentage = sv_PassPercentage sv,
              vsr_Results = results\<rparr> of
        Inl err \<Rightarrow> (([], Some err), d)
      | Inr reply \<Rightarrow> ((reply, None), d))"

text \<open>The manual count of the cast votes of every option.\<close>

fun count_loop ::
  "gorm_DB \<Rightarrow> VoteOption list \<Rightarrow> bp_VoteOptionResult list \<Rightarrow> (error + bp_VoteOptionResult list) \<times> gorm_DB" where
  "count_loop d [] results = (Inr results, d)"
| "count_loop d (v # vs) results =
     (case db_query [tableCastVotes]
             (\<lambda>db. of_nat (length (filter (\<lambda>c. cv_TokenVoteBit c = vo_Token v @ FormatUint (vo_Bits v) 16)
                                      (cast_votes db)))) d of
        (Inl err, d') \<Rightarrow> (Inl (Errorf ''count cast votes'' err), d')
      | (Inr votes, d') \<Rightarrow>
          count_loop d' vs
            (results @ [\<lparr>bvor_ID = vo_ID v, bvor_Description = vo_Description v,
                         bvor_Bits = vo_Bits v, bvor_Votes = votes\<rparr>]))"

definition cmdVoteSummary :: "codec \<Rightarrow> gorm_DB \<Rightarrow> string \<Rightarrow> reply \<times> gorm_DB" where
  "cmdVoteSummary cd d payload =
     (case DecodeVoteSummary cd payload of
        Inl err \<Rightarrow> (([], Some err), d)
      | Inr token \<Rightarrow>
     (case db_first [tableRecords] (latest_record token) d of
        (Inl err, d1) \<Rightarrow>
          (([], Some (if err = GormRecordNotFound then ErrRecordNotFound else err)), d1)
      | (Inr r, d1) \<Rightarrow>
     (case db_first [tableAuthorizeVotes]
             (\<lambda>db. filter (\<lambda>a. av_Key a = token @ FormatUint (r_Version r) 10) (authorize_votes db)) d1 of
        (Inl err, d2) \<Rightarrow>
          if err = GormRecordNotFound then sendReply cd zero_AuthorizeVote zero_StartVote [] d2
          else (([], Some (Errorf ''lookup authorize vote'' err)), d2)
      | (Inr av, d2) \<Rightarrow>
     (case db_first [tableStartVotes, tableVoteOptions]
             (\<lambda>db. filter (\<lambda>s. sv_Token s = token) (start_votes db)) d2 of
        (Inl err, d3) \<Rightarrow>
          if err = GormRecordNotFound then sendReply cd av zero_StartVote [] d3
          else (([], Some (Errorf ''lookup start vote'' err)), d3)
      | (Inr sv, d3) \<Rightarrow>
     (case db_first [tableVoteResults, tableVoteOptionResults, tableVoteOptions]
             (\<lambda>db. filter (\<lambda>r. vr_Token r = token) (vote_results db)) d3 of
        (Inr vr, d4) \<Rightarrow> sendReply cd av sv (map convertVoteOptionResultToBitum (vr_Results vr)) d4
      | (Inl err, d4) \<Rightarrow>
          if err \<noteq> GormRecordNotFound then (([], Some (Errorf ''lookup vote results'' err)), d4)
          else (case count_loop d4 (sv_Options sv) [] of
                  (Inl err', d5) \<Rightarrow> (([], Some err'), d5)
                | (Inr results, d5) \<Rightarrow> sendReply cd av sv results d5))))))"

subsection \<open>The dispatcher\<close>

text \<open>
  Modelled from the spec: the command names of the bitumplugin package (not among the
  sources), after section 6 of the specification.
\<close>

definition CmdAuthorizeVote :: string where "CmdAuthorizeVote = ''authorize-vote''"
definition CmdStartVote :: string where "CmdStartVote = ''start-vote''"
definition CmdVoteDetails :: string where "CmdVoteDetails = ''vote-details''"
definition CmdBallot :: string where "CmdBallot = ''cast-ballot''"
definition CmdBestBlock :: string where "CmdBestBlock = ''best-block''"
definition CmdNewComment :: string where "CmdNewComment = ''new-comment''"
definition CmdLikeComment :: string where "CmdLikeComment = ''like-comment''"
definition CmdCensorComment :: string where "CmdCensorComment = ''censor-comment''"
definition CmdGetComment :: string where "CmdGetComment = ''get-comment''"
definition CmdGetComments :: string where "CmdGetComments = ''get-comments''"
definition CmdProposalVotes :: string where "CmdProposalVotes = ''proposal-votes''"
definition CmdCommentLikes :: string where "CmdCommentLikes = ''comment-likes''"
definition CmdProposalCommentsLikes :: string where
  "CmdProposalCommentsLikes = ''proposal-comment-likes''"
definition CmdInventory :: string where "CmdInventory = ''inventory''"
definition CmdLoadVoteResults :: string where "CmdLoadVoteResults = ''load-vote-results''"
definition CmdTokenInventory :: string where "CmdTokenInventory = ''token-inventory''"
definition CmdVoteSummary :: string where "CmdVoteSummary = ''vote-summary''"

definition Exec :: "codec \<Rightarrow> gorm_DB \<Rightarrow> string \<Rightarrow> string \<Rightarrow> string \<Rightarrow> reply \<times> gorm_DB" where
  "Exec cd d cmd cmdPayload replyPayload =
     (if cmd = CmdAuthorizeVote then cmdAuthorizeVote cd d cmdPayload replyPayload
      else if cmd = CmdStartVote then cmdStartVote cd d cmdPayload replyPayload
      else if cmd = CmdVoteDetails then cmdVoteDetails cd d cmdPayload
      else if cmd = CmdBallot then cmdNewBallot cd d cmdPayload replyPayload
      else if cmd = CmdBestBlock then (([], None), d)
      else if cmd = CmdNewComment then cmdNewComment cd d cmdPayload replyPayload
      else if cmd = CmdLikeComment then cmdLikeComment cd d cmdPayload replyPayload
      else if cmd = CmdCensorComment then cmdCensorComment cd d cmdPayload replyPayload
      else if cmd = CmdGetComment then cmdGetComment cd d cmdPayload
      else if cmd = CmdGetComments then cmdGetComments cd d cmdPayload
      else if cmd = CmdProposalVotes then cmdProposalVotes cd d cmdPayload
      else if cmd = CmdCommentLikes then cmdCommentLikes cd d cmdPayload
      else if cmd = CmdProposalCommentsLikes then cmdProposalCommentsLikes cd d cmdPayload
      else if cmd = CmdInventory then cmdInventory cd d
      else if cmd = CmdLoadVoteResults then cmdLoadVoteResults cd d cmdPayload
      else if cmd = CmdTokenInventory then cmdTokenInventory cd d cmdPayload
      else if cmd = CmdVoteSummary then cmdVoteSummary cd d cmdPayload
      else (([], Some ErrInvalidPluginCmd), d))"

subsection \<open>Tables, rebuild and version check\<close>

text \<open>A loop that runs its body on every element and stops at the first error.\<close>

fun for_each ::
  "('a \<Rightarrow> gorm_DB \<Rightarrow> error option \<times> gorm_DB) \<Rightarrow> 'a list \<Rightarrow> gorm_DB \<Rightarrow> error option \<times> gorm_DB" where
  "for_each body [] d = (None, d)"
| "for_each body (v # vs) d =
     (case body v d of
        (Some err, d') \<Rightarrow> (Some err, d')
      | (None, d') \<Rightarrow> for_each body vs d')"

definition HasTable :: "gorm_DB \<Rightarrow> string \<Rightarrow> bool" where
  "HasTable db t = (t \<in> set (tables db))"

definition CreateTable :: "string \<Rightarrow> gorm_DB \<Rightarrow> error option \<times> gorm_DB" where
  "CreateTable t db = db_exec [] (\<lambda>d. d\<lparr>tables := tables d @ [t]\<rparr>) db"

definition plugin_tables :: "string list" where
  "plugin_tables =
     [tableComments, tableCommentLikes, tableCastVotes, tableAuthorizeVotes, tableVoteOptions,
      tableStartVotes, tableVoteOptionResults, tableVoteResults]"

definition delete_version :: "gorm_DB \<Rightarrow> error option \<times> gorm_DB" where
  "delete_version db =
     db_exec [tableVersions] (\<lambda>d. d\<lparr>versions := filter (\<lambda>v. v_ID v \<noteq> bitumplugin_ID) (versions d)\<rparr>) db"

definition createTables :: "gorm_DB \<Rightarrow> int \<Rightarrow> error option \<times> gorm_DB" where
  "createTables tx now =
     (case for_each (\<lambda>t db. if \<not> HasTable db t then CreateTable t db else (None, db)) plugin_tables tx of
        (Some err, tx1) \<Rightarrow> (Some err, tx1)
      | (None, tx1) \<Rightarrow>
          if \<not> HasTable tx1 tableVersions then (Some (ErrorMsg ''versions table not found''), tx1)
          else (case db_first [tableVersions] (\<lambda>db. filter (\<lambda>v. v_ID v = bitumplugin_ID) (versions db)) tx1 of
                  (Inr v, tx2) \<Rightarrow> (None, tx2)
                | (Inl err, tx2) \<Rightarrow>
                    if err = GormRecordNotFound
                    then db_exec [tableVersions]
                           (\<lambda>db. db\<lparr>versions := versions db @
                                     [\<lparr>v_ID = bitumplugin_ID, v_Version = bitumVersion, v_Timestamp = now\<rparr>]\<rparr>) tx2
                    else (Some err, tx2)))"

definition dropTables :: "gorm_DB \<Rightarrow> error option \<times> gorm_DB" where
  "dropTables tx =
     (case db_exec []
             (\<lambda>db. db\<lparr>comments := [], like_comments := [], cast_votes := [], authorize_votes := [],
                       start_votes := [], vote_results := [],
                       tables := filter (\<lambda>t. t \<notin> set plugin_tables) (tables db)\<rparr>) tx of
        (Some err, tx1) \<Rightarrow> (Some err, tx1)
      | (None, tx1) \<Rightarrow> delete_version tx1)"

text \<open>The map from receipt to authorize vote reply that \<open>build\<close> fills first.\<close>

definition reply_map :: "bp_AuthorizeVoteReply list \<Rightarrow> string \<Rightarrow> bp_AuthorizeVoteReply option" where
  "reply_map rs = foldl (\<lambda>m v. m(avr_Receipt v \<mapsto> v)) Map.empty rs"

definition build_comment :: "bp_Comment \<Rightarrow> gorm_DB \<Rightarrow> error option \<times> gorm_DB" where
  "build_comment v d =
     (case newComment d (convertCommentFromBitum v) of
        (Some err, d') \<Rightarrow> (Some (Errorf ''newComment'' err), d')
      | (None, d') \<Rightarrow> (None, d'))"

definition build_like_comment :: "bp_LikeComment \<Rightarrow> gorm_DB \<Rightarrow> error option \<times> gorm_DB" where
  "build_like_comment v d =
     (case newLikeComment d (convertLikeCommentFromBitum v) of
        (Some err, d') \<Rightarrow> (Some (Errorf ''newLikeComment'' err), d')
      | (None, d') \<Rightarrow> (None, d'))"

definition build_authorize_vote ::
  "(string \<Rightarrow> bp_AuthorizeVoteReply option) \<Rightarrow> bp_AuthorizeVote \<Rightarrow> gorm_DB \<Rightarrow> error option \<times> gorm_DB" where
  "build_authorize_vote avr v d =
     (case avr (bav_Receipt v) of
        None \<Rightarrow> (Some (ErrorMsg (''AuthorizeVoteReply not found '' @ bav_Token v)), d)
      | Some r \<Rightarrow>
          (case ParseUint (avr_RecordVersion r) of
             Inl err \<Rightarrow> (Some (Errorf ''parse version'' err), d)
           | Inr rv \<Rightarrow>
               (case newAuthorizeVote d (convertAuthorizeVoteFromBitum v r rv) of
                  (Some err, d') \<Rightarrow> (Some (Errorf ''newAuthorizeVote'' err), d')
                | (None, d') \<Rightarrow> (None, d'))))"

definition build_start_vote :: "bp_StartVote \<times> bp_StartVoteReply \<Rightarrow> gorm_DB \<Rightarrow> error option \<times> gorm_DB" where
  "build_start_vote v d =
     (case ParseUint (svr_EndHeight (snd v)) of
        Inl err \<Rightarrow> (Some (Errorf ''parse end height'' err), d)
      | Inr endHeight \<Rightarrow>
          (case newStartVote d (convertStartVoteFromBitum (fst v) (snd v) endHeight) of
             (Some err, d') \<Rightarrow> (Some (Errorf ''newStartVote'' err), d')
           | (None, d') \<Rightarrow> (None, d')))"

definition build_cast_vote :: "bp_CastVote \<Rightarrow> gorm_DB \<Rightarrow> error option \<times> gorm_DB" where
  "build_cast_vote v d =
     (case newCastVote d (convertCastVoteFromBitum v) of
        (Some err, d') \<Rightarrow> (Some (Errorf ''newCastVote'' err), d')
      | (None, d') \<Rightarrow> (None, d'))"

text \<open>
  \<open>build\<close>: two transactions for the tables, then the five loops over the inventory,
  outside any transaction. \<open>now\<close> is the clock reading of \<open>createTables\<close>.
\<close>

definition build :: "gorm_DB \<Rightarrow> int \<Rightarrow> bp_InventoryReply \<Rightarrow> error option \<times> gorm_DB" where
  "build d now ir =
     (case dropTables (Begin d) of
        (Some err, tx) \<Rightarrow> (Some (Errorf ''drop tables'' err), Rollback d tx)
      | (None, tx) \<Rightarrow>
     (case Commit d tx of
        (Some err, d1) \<Rightarrow> (Some err, d1)
      | (None, d1) \<Rightarrow>
     (case createTables (Begin d1) now of
        (Some err, tx') \<Rightarrow> (Some (Errorf ''create tables'' err), Rollback d1 tx')
      | (None, tx') \<Rightarrow>
     (case Commit d1 tx' of
        (Some err, d2) \<Rightarrow> (Some err, d2)
      | (None, d2) \<Rightarrow>
     (case for_each build_comment (ir_Comments ir) d2 of
        (Some err, d3) \<Rightarrow> (Some err, d3)
      | (None, d3) \<Rightarrow>
     (case for_each build_like_comment (ir_LikeComments ir) d3 of
        (Some err, d4) \<Rightarrow> (Some err, d4)
      | (None, d4) \<Rightarrow>
     (case for_each (build_authorize_vote (reply_map (ir_AuthorizeVoteReplies ir)))
             (ir_AuthorizeVotes ir) d4 of
        (Some err, d5) \<Rightarrow> (Some err, d5)
      | (None, d5) \<Rightarrow>
     (case for_each build_start_vote (ir_StartVoteTuples ir) d5 of
        (Some err, d6) \<Rightarrow> (Some err, d6)
      | (None, d6) \<Rightarrow> for_each build_cast_vote (ir_CastVotes ir) d6))))))))"

text \<open>What a call does: it returns a value or it panics.\<close>

datatype 'a outcome = Return 'a | Panic string

definition Build :: "codec \<Rightarrow> gorm_DB \<Rightarrow> int \<Rightarrow> string \<Rightarrow> error option outcome \<times> gorm_DB" where
  "Build cd d now payload =
     (case DecodeInventoryReply cd payload of
        Inl err \<Rightarrow> (Return (Some (Errorf ''DecodeInventoryReply'' err)), d)
      | Inr ir \<Rightarrow>
          (case build d now ir of
             (None, d1) \<Rightarrow> (Return None, d1)
           | (Some err, d1) \<Rightarrow>
               (case delete_version d1 of
                  (Some err1, d2) \<Rightarrow>
                    (Panic ''the cache is out of sync and will not rebuildautomatically; a rebuild must be forced'', d2)
                | (None, d2) \<Rightarrow> (Return (Some err), d2))))"

definition Setup :: "gorm_DB \<Rightarrow> int \<Rightarrow> error option \<times> gorm_DB" where
  "Setup d now =
     (case createTables (Begin d) now of
        (Some err, tx) \<Rightarrow> (Some err, Rollback d tx)
      | (None, tx) \<Rightarrow> Commit d tx)"

definition CheckVersion :: "gorm_DB \<Rightarrow> error option \<times> gorm_DB" where
  "CheckVersion d =
     (if \<not> HasTable d tableVersions then (Some (ErrorMsg ''versions table not found''), d)
      else (case db_first [tableVersions] (\<lambda>db. filter (\<lambda>v. v_ID v = bitumplugin_ID) (versions db)) d of
              (Inl err, d') \<Rightarrow>
                (Some (if err = GormRecordNotFound then ErrNoVersionRecord else ErrWrongVersion), d')
            | (Inr v, d') \<Rightarrow>
                (if v_Version v \<noteq> bitumVersion then Some ErrWrongVersion else None, d')))"

subsection \<open>Vocabulary of the properties\<close>

text \<open>
  \<open>store_ok tbls d\<close>: the next store operation on the tables \<open>tbls\<close> succeeds.
  \<open>no_faults n d\<close>: none of the next \<open>n\<close> store operations is scheduled to fail.
  \<open>content d\<close>: the rows and tables of \<open>d\<close>, what a client of the cache can observe.
\<close>

definition store_ok :: "string list \<Rightarrow> gorm_DB \<Rightarrow> bool" where
  "store_ok tbls d = fst (attempt tbls d)"

definition no_faults :: "nat \<Rightarrow> gorm_DB \<Rightarrow> bool" where
  "no_faults n d = list_all (\<lambda>f. \<not> f) (take n (faults d))"

definition content :: "gorm_DB \<Rightarrow> gorm_DB" where
  "content d = d\<lparr>faults := []\<rparr>"

text \<open>\<open>linked d\<close>: every vote result of \<open>d\<close> belongs to a start vote of \<open>d\<close>.\<close>

definition linked :: "gorm_DB \<Rightarrow> bool" where
  "linked d = (\<forall>r\<in>set (vote_results d). \<exists>s\<in>set (start_votes d). sv_Token s = vr_Token r)"

text \<open>
  A line-oriented stand-in for the JSON codec, for running the handlers on concrete
  payloads: fields are separated by colons, the votes of a ballot by semicolons, a best
  block is a decimal number, a token is any non-empty string.
\<close>

definition decode_token :: "string \<Rightarrow> error + string" where
  "decode_token s = (if s = [] then Inl (CodecError s) else Inr s)"

definition decode_vote :: "string \<Rightarrow> bp_CastVote option" where
  "decode_vote s =
     (case strings_Split s CHR '':'' of
        [t, k, b] \<Rightarrow> Some \<lparr>bcv_Token = t, bcv_Ticket = k, bcv_VoteBit = b, bcv_Signature = []\<rparr>
      | _ \<Rightarrow> None)"

definition demo_codec :: codec where
  "demo_codec =
     \<lparr>DecodeNewComment = (\<lambda>s. Inl (CodecError s)),
      DecodeNewCommentReply = (\<lambda>s. Inl (CodecError s)),
      DecodeLikeComment = (\<lambda>s. Inl (CodecError s)),
      DecodeCensorComment = (\<lambda>s. case strings_Split s CHR '':'' of
          [t, c] \<Rightarrow> Inr \<lparr>cc_Token = t, cc_CommentID = c\<rparr> | _ \<Rightarrow> Inl (CodecError s)),
      DecodeGetComment = (\<lambda>s. case strings_Split s CHR '':'' of
          [t, c] \<Rightarrow> Inr \<lparr>gc_Token = t, gc_CommentID = c\<rparr> | _ \<Rightarrow> Inl (CodecError s)),
      DecodeGetComments = decode_token,
      DecodeCommentLikes = (\<lambda>s. case strings_Split s CHR '':'' of
          [t, c] \<Rightarrow> Inr \<lparr>cl_Token = t, cl_CommentID = c\<rparr> | _ \<Rightarrow> Inl (CodecError s)),
      DecodeGetProposalCommentsLikes = decode_token,
      DecodeAuthorizeVote = (\<lambda>s. case strings_Split s CHR '':'' of
          [t, a] \<Rightarrow> Inr \<lparr>bav_Token = t, bav_Action = a, bav_Signature = [], bav_PublicKey = [],
                          bav_Receipt = []\<rparr>
        | _ \<Rightarrow> Inl (CodecError s)),
      DecodeAuthorizeVoteReply = (\<lambda>s. case strings_Split s CHR '':'' of
          [v, r] \<Rightarrow> Inr \<lparr>avr_Action = [], avr_RecordVersion = v, avr_Receipt = r, avr_Timestamp = 0\<rparr>
        | _ \<Rightarrow> Inl (CodecError s)),
      DecodeStartVote = (\<lambda>s. Inl (CodecError s)),
      DecodeStartVoteReply = (\<lambda>s. Inl (CodecError s)),
      DecodeVoteDetails = decode_token,
      DecodeBallot = (\<lambda>s. let vs = map decode_vote (strings_Split s CHR '';'')
                            in if list_all (\<lambda>v. v \<noteq> None) vs then Inr (map the vs)
                               else Inl (CodecError s)),
      DecodeVoteResults = decode_token,
      DecodeLoadVoteResults = ParseUint,
      DecodeTokenInventory = ParseUint,
      DecodeVoteSummary = decode_token,
      DecodeInventoryReply = (\<lambda>s. if s = ''{}''
          then Inr \<lparr>ir_Comments = [], ir_LikeComments = [], ir_AuthorizeVotes = [],
                    ir_AuthorizeVoteReplies = [], ir_StartVoteTuples = [], ir_CastVotes = []\<rparr>
          else Inl (CodecError s)),
      EncodeGetCommentReply = (\<lambda>c. Inr (c_Comment c)),
      EncodeGetCommentsReply = (\<lambda>cs. Inr (strings_Join (map c_Comment cs) '';'')),
      EncodeCommentLikesReply = (\<lambda>ls. Inr (strings_Join (map lc_Action ls) '';'')),
      EncodeGetProposalCommentsLikesReply = (\<lambda>ls. Inr (strings_Join (map lc_Action ls) '';'')),
      EncodeVoteDetailsReply = (\<lambda>av sv. Inr (av_Action av @ '':'' @ sv_Token sv)),
      EncodeVoteResultsReply = (\<lambda>sv cv. Inr (strings_Join (map cv_VoteBit cv) '';'')),
      EncodeInventoryReply = (\<lambda>cs. Inr (strings_Join (map c_Comment cs) '';'')),
      EncodeLoadVoteResultsReply = Inr ''{}'',
      EncodeTokenInventoryReply = (\<lambda>r. Inr (strings_Join
          [strings_Join (tir_Pre r) '','', strings_Join (tir_Active r) '','',
           strings_Join (tir_Approved r) '','', strings_Join (tir_Rejected r) '','',
           strings_Join (tir_Abandoned r) '',''] '';'')),
      EncodeVoteSummaryReply = (\<lambda>r. Inr (vsr_EndHeight r))\<rparr>"

text \<open>
  An empty cache with every table in place, no failure scheduled, and a store that gives
  every token the same rank.
\<close>

definition empty_cache :: gorm_DB where
  "empty_cache =
     \<lparr>comments = [], like_comments = [], cast_votes = [], authorize_votes = [],
      start_votes = [], vote_results = [], records = [], versions = [],
      tables = plugin_tables @ [tableRecords, tableVersions], faults = [],
      tie_rank = (\<lambda>query token. 0)\<rparr>"

definition demo_comment :: Comment where
  "demo_comment =
     \<lparr>c_Key = ''ab1'', c_Token = ''ab'', c_ParentID = ''0'', c_Comment = ''hello'',
      c_Signature = ''sig'', c_PublicKey = ''pk'', c_CommentID = ''1'', c_Receipt = ''rc'',
      c_Timestamp = 1500000000, c_Censored = False, c_Upvotes = 3, c_Downvotes = 1\<rparr>"

definition demo_comment2 :: Comment where
  "demo_comment2 =
     \<lparr>c_Key = ''ab2'', c_Token = ''ab'', c_ParentID = ''1'', c_Comment = ''a reply'',
      c_Signature = ''sig2'', c_PublicKey = ''pk2'', c_CommentID = ''2'', c_Receipt = ''rc2'',
      c_Timestamp = 1500000100, c_Censored = False, c_Upvotes = 0, c_Downvotes = 2\<rparr>"

text \<open>Start votes with the options yes (bit 2) and no (bit 1), and votes cast on them.\<close>

definition demo_options :: "string \<Rightarrow> VoteOption list" where
  "demo_options token =
     [\<lparr>vo_Token = token, vo_ID = ''yes'', vo_Description = ''approve'', vo_Bits = 2\<rparr>,
      \<lparr>vo_Token = token, vo_ID = ''no'', vo_Description = ''reject'', vo_Bits = 1\<rparr>]"

definition demo_start_vote :: "string \<Rightarrow> 32 word \<Rightarrow> string list \<Rightarrow> 64 word \<Rightarrow> StartVote" where
  "demo_start_vote token quorumPct tickets endHeight =
     \<lparr>sv_Token = token, sv_Mask = 3, sv_Duration = 2016, sv_QuorumPercentage = quorumPct,
      sv_PassPercentage = 60, sv_Options = demo_options token, sv_PublicKey = ''pk'',
      sv_Signature = ''sig'', sv_StartBlockHeight = 1, sv_StartBlockHash = ''hash'',
      sv_EndHeight = endHeight, sv_EligibleTickets = strings_Join tickets '','',
      sv_EligibleTicketCount = length tickets\<rparr>"

definition demo_cast_vote :: "string \<Rightarrow> string \<Rightarrow> string \<Rightarrow> CastVote" where
  "demo_cast_vote token ticket voteBit =
     \<lparr>cv_Token = token, cv_Ticket = ticket, cv_VoteBit = voteBit, cv_Signature = ''sig'',
      cv_TokenVoteBit = token @ voteBit\<rparr>"

text \<open>
  A cache with four start votes: \<open>aa\<close> ended at height 50 and has its vote result,
  \<open>bb\<close> ended at height 80 with two votes for no and has no vote result yet, \<open>cc\<close> and
  \<open>dd\<close> end at heights 200 and 150.
\<close>

definition demo_tickets :: "string list" where
  "demo_tickets = [''t1'', ''t2'', ''t3'', ''t4'', ''t5'']"

definition demo_result_aa :: VoteResults where
  "demo_result_aa =
     \<lparr>vr_Token = ''aa'', vr_Approved = True,
      vr_Results = [\<lparr>vor_Key = ''aa2'', vor_Votes = 0, vor_Option = hd (demo_options ''aa'')\<rparr>,
                    \<lparr>vor_Key = ''aa1'', vor_Votes = 0, vor_Option = last (demo_options ''aa'')\<rparr>]\<rparr>"

definition demo_result_bb :: VoteResults where
  "demo_result_bb =
     \<lparr>vr_Token = ''bb'', vr_Approved = False,
      vr_Results = [\<lparr>vor_Key = ''bb2'', vor_Votes = 0, vor_Option = hd (demo_options ''bb'')\<rparr>,
                    \<lparr>vor_Key = ''bb1'', vor_Votes = 2, vor_Option = last (demo_options ''bb'')\<rparr>]\<rparr>"

definition demo_cache :: gorm_DB where
  "demo_cache =
     empty_cache
       \<lparr>cast_votes := [demo_cast_vote ''bb'' ''t1'' ''1'', demo_cast_vote ''bb'' ''t2'' ''1''],
        start_votes := [demo_start_vote ''aa'' 20 demo_tickets 50,
                        demo_start_vote ''bb'' 20 demo_tickets 80,
                        demo_start_vote ''cc'' 20 demo_tickets 200,
                        demo_start_vote ''dd'' 20 demo_tickets 150],
        vote_results := [demo_result_aa]\<rparr>"

text \<open>
  A vote with a quorum of 58 percent, 50 eligible tickets and 28 votes, all for yes.
\<close>

definition quorum_tickets :: "string list" where
  "quorum_tickets =
     [''t01'', ''t02'', ''t03'', ''t04'', ''t05'', ''t06'', ''t07'', ''t08'', ''t09'', ''t10'',
      ''t11'', ''t12'', ''t13'', ''t14'', ''t15'', ''t16'', ''t17'', ''t18'', ''t19'', ''t20'',
      ''t21'', ''t22'', ''t23'', ''t24'', ''t25'', ''t26'', ''t27'', ''t28'', ''t29'', ''t30'',
      ''t31'', ''t32'', ''t33'', ''t34'', ''t35'', ''t36'', ''t37'', ''t38'', ''t39'', ''t40'',
      ''t41'', ''t42'', ''t43'', ''t44'', ''t45'', ''t46'', ''t47'', ''t48'', ''t49'', ''t50'']"

definition quorum_cache :: gorm_DB where
  "quorum_cache =
     empty_cache
       \<lparr>cast_votes := map (\<lambda>t. demo_cast_vote ''q58'' t ''2'') (take 28 quorum_tickets),
        start_votes := [demo_start_vote ''q58'' 58 quorum_tickets 100]\<rparr>"

text \<open>
  The thresholds and the outcome as the specification words them, with exact arithmetic:
  the quorum is the floor of the quorum percentage of the eligible tickets, the pass
  threshold the floor of the pass percentage of the votes cast.
\<close>

definition spec_quorum :: "StartVote \<Rightarrow> nat" where
  "spec_quorum sv = unat (sv_QuorumPercentage sv) * eligible sv div 100"

definition spec_pass :: "StartVote \<Rightarrow> nat \<Rightarrow> nat" where
  "spec_pass sv tot = unat (sv_PassPercentage sv) * tot div 100"

definition spec_approved :: "StartVote \<Rightarrow> VoteOptionResult list \<Rightarrow> bool" where
  "spec_approved sv results =
     (spec_quorum sv \<le> unat (total_votes results) \<and>
      spec_pass sv (unat (total_votes results)) \<le> unat (approvedVotes results))"

section \<open>Properties\<close>

subsection \<open>The eligible ticket count\<close>

lemma strings_Split_Nil: "strings_Split [] sep = [[]]"
  by (simp add: strings_Split_def)

lemma strings_Split_Cons:
  "strings_Split (c # s) sep =
     (if c = sep then [] # strings_Split s sep
      else (c # hd (strings_Split s sep)) # tl (strings_Split s sep))"
  by (simp add: strings_Split_def)

lemma strings_Split_length:
  "strings_Split s sep \<noteq> [] \<and> length (strings_Split s sep) = Suc (count_list s sep)"
proof (induction s)
  case Nil
  show ?case by (simp add: strings_Split_Nil)
next
  case (Cons c s)
  then obtain w ws where "strings_Split s sep = w # ws"
    by (cases "strings_Split s sep") auto
  with Cons show ?case by (simp add: strings_Split_Cons)
qed

lemma strings_Split_step:
  "strings_Split (c # s) sep =
     (case strings_Split s sep of
        [] \<Rightarrow> [[c]]
      | w # ws \<Rightarrow> if c = sep then [] # w # ws else (c # w) # ws)"
  using strings_Split_length [of s sep]
  by (cases "strings_Split s sep") (simp_all add: strings_Split_Cons)

text \<open>
  C9. The eligible count that \<open>newVoteResults\<close> computes is the number of commas in the
  stored eligible-ticket string plus one. For the empty string it is 1, not 0, so it is
  at least 1 for every start vote, and the quorum is computed from that count.
\<close>

theorem eligible_counts_separators:
  "eligible sv = count_list (sv_EligibleTickets sv) CHR '','' + 1
   \<and> eligible (sv\<lparr>sv_EligibleTickets := []\<rparr>) = 1
   \<and> 1 \<le> eligible sv
   \<and> quorum sv = percent_of (sv_QuorumPercentage sv) (count_list (sv_EligibleTickets sv) CHR '','' + 1)"
  by (simp add: eligible_def quorum_def strings_Split_length)

subsection \<open>Evaluation on concrete inputs\<close>

lemmas split_eval = strings_Split_Nil strings_Split_step

lemmas table_names = tableComments_def tableCommentLikes_def tableCastVotes_def
  tableAuthorizeVotes_def tableVoteOptions_def tableStartVotes_def tableVoteOptionResults_def
  tableVoteResults_def tableRecords_def tableVersions_def plugin_tables_def

lemmas store_eval = store_ok_def attempt_def empty_cache_def table_names

lemmas f64_eval = percent_of_def f64_mul_def f64_div_def f64_of_nat_def f64_round_def
  uint64_of_f64_def geq_pow2_def ilog2.simps Let_def

subsection \<open>Store operations\<close>

lemma attempt_eq: "attempt tbls d = (store_ok tbls d, d\<lparr>faults := tl (faults d)\<rparr>)"
  by (simp add: attempt_def store_ok_def)

lemma db_exec_eq:
  "db_exec tbls upd d =
     (if store_ok tbls d then (None, upd (d\<lparr>faults := tl (faults d)\<rparr>))
      else (Some StoreFault, d\<lparr>faults := tl (faults d)\<rparr>))"
  by (simp add: db_exec_def attempt_eq)

lemma db_query_eq:
  "db_query tbls q d =
     (if store_ok tbls d then (Inr (q (d\<lparr>faults := tl (faults d)\<rparr>)), d\<lparr>faults := tl (faults d)\<rparr>)
      else (Inl StoreFault, d\<lparr>faults := tl (faults d)\<rparr>))"
  by (simp add: db_query_def attempt_eq)

lemma db_first_eq:
  "db_first tbls q d =
     (if store_ok tbls d
      then (case rev (q (d\<lparr>faults := tl (faults d)\<rparr>)) of
              [] \<Rightarrow> (Inl GormRecordNotFound, d\<lparr>faults := tl (faults d)\<rparr>)
            | x # _ \<Rightarrow> (Inr x, d\<lparr>faults := tl (faults d)\<rparr>))
      else (Inl StoreFault, d\<lparr>faults := tl (faults d)\<rparr>))"
  by (simp add: db_first_def attempt_eq)

lemma db_query_frame: "db_query tbls q d = (r, d') \<Longrightarrow> d' = d\<lparr>faults := tl (faults d)\<rparr>"
  by (auto simp: db_query_eq split: if_splits)

lemma db_first_frame: "db_first tbls q d = (r, d') \<Longrightarrow> d' = d\<lparr>faults := tl (faults d)\<rparr>"
  by (auto simp: db_first_eq split: if_splits list.splits)

lemma db_first_in: "db_first tbls q d = (Inr x, d') \<Longrightarrow> x \<in> set (q d')"
  by (auto simp: db_first_eq split: if_splits list.splits)

lemma Commit_ok: "Commit d tx = (None, d') \<Longrightarrow> d' = tx\<lparr>faults := tl (faults tx)\<rparr>"
  by (auto simp: Commit_def attempt_eq split: bool.splits)

lemma Commit_fail: "Commit d tx = (Some e, d') \<Longrightarrow> d' = d\<lparr>faults := tl (faults tx)\<rparr>"
  by (auto simp: Commit_def attempt_eq split: bool.splits)

subsection \<open>Censoring a comment\<close>

lemma censor_other: "key \<noteq> [] \<Longrightarrow> c_Key c \<noteq> key \<Longrightarrow> censor key c = c"
  by (simp add: censor_def)

lemma censor_hit: "c_Key c = key \<Longrightarrow> censor key c = c\<lparr>c_Comment := [], c_Censored := True\<rparr>"
  by (simp add: censor_def)

lemma censor_cases: "censor key c = c \<or> censor key c = c\<lparr>c_Comment := [], c_Censored := True\<rparr>"
  by (simp add: censor_def)

lemma censor_idem: "censor key (censor key c) = censor key c"
  by (simp add: censor_def)

lemma map_censor_absent:
  "key \<noteq> [] \<Longrightarrow> \<forall>c\<in>set cs. c_Key c \<noteq> key \<Longrightarrow> map (censor key) cs = cs"
  by (induction cs) (simp_all add: censor_other)

lemma cmdCensorComment_ok:
  assumes dec: "DecodeCensorComment cd cmdPayload = Inr cc"
    and run: "cmdCensorComment cd d cmdPayload replyPayload = ((out, None), d')"
  shows "d' = d\<lparr>faults := tl (faults d),
                 comments := map (censor (cc_Token cc @ cc_CommentID cc)) (comments d)\<rparr>"
  using dec run by (auto simp: cmdCensorComment_def db_exec_eq split: if_splits)

text \<open>
  A censor-comment command whose key is not blank and matches no comment returns the
  reply payload with a nil error and changes no row, provided the payload decodes and
  the store executes the update.
\<close>

lemma censor_missing_comment_noop:
  assumes dec: "DecodeCensorComment cd cmdPayload = Inr cc"
    and nonblank: "cc_Token cc @ cc_CommentID cc \<noteq> []"
    and absent: "\<forall>c\<in>set (comments d). c_Key c \<noteq> cc_Token cc @ cc_CommentID cc"
    and ok: "store_ok [tableComments] d"
  shows "cmdCensorComment cd d cmdPayload replyPayload
           = ((replyPayload, None), d\<lparr>faults := tl (faults d)\<rparr>)"
  using dec ok map_censor_absent [OF nonblank absent]
  by (simp add: cmdCensorComment_def db_exec_eq)

text \<open>
  C10. A censor-comment command whose key matches no comment returns the reply payload
  with a nil error and raises no not-found error, but the store is not always left
  unchanged: the key of the empty token and the empty comment id matches no comment,
  and the update, which then carries no condition at all, censors every comment of the
  cache. Here the cache holds the comments 1 and 2 of \<open>ab\<close>, and both are censored.
\<close>

theorem censor_blank_key_censors_all:
  "DecodeCensorComment demo_codec '':'' = Inr \<lparr>cc_Token = [], cc_CommentID = []\<rparr>
   \<and> c_Key demo_comment = ''ab1'' \<and> c_Key demo_comment2 = ''ab2''
   \<and> cmdCensorComment demo_codec (empty_cache\<lparr>comments := [demo_comment, demo_comment2]\<rparr>)
        '':'' ''reply''
     = ((''reply'', None),
        empty_cache\<lparr>comments := [demo_comment\<lparr>c_Comment := [], c_Censored := True\<rparr>,
                                 demo_comment2\<lparr>c_Comment := [], c_Censored := True\<rparr>]\<rparr>)"
proof -
  have dec: "DecodeCensorComment demo_codec '':'' = Inr \<lparr>cc_Token = [], cc_CommentID = []\<rparr>"
    by (simp add: demo_codec_def split_eval)
  have keys: "c_Key demo_comment = ''ab1''" "c_Key demo_comment2 = ''ab2''"
    by (simp_all add: demo_comment_def demo_comment2_def)
  have run: "cmdCensorComment demo_codec (empty_cache\<lparr>comments := [demo_comment, demo_comment2]\<rparr>)
        '':'' ''reply''
     = ((''reply'', None),
        empty_cache\<lparr>comments := [demo_comment\<lparr>c_Comment := [], c_Censored := True\<rparr>,
                                 demo_comment2\<lparr>c_Comment := [], c_Censored := True\<rparr>]\<rparr>)"
    by (simp add: cmdCensorComment_def dec db_exec_eq store_eval censor_def)
  from dec keys run show ?thesis by blast
qed

text \<open>
  C6. A successful censor-comment command keeps every comment in place, with its key and
  all fields other than the message text and the censored flag; in every comment with
  the key of the command the message text becomes empty and the censored flag true. No
  other table changes (the like rows among them), and a second successful censor of the
  same comment changes nothing.
\<close>

theorem censor_comment_frame:
  assumes dec: "DecodeCensorComment cd cmdPayload = Inr cc"
    and run: "cmdCensorComment cd d cmdPayload replyPayload = ((out, None), d')"
  shows "length (comments d') = length (comments d)
    \<and> content (d'\<lparr>comments := comments d\<rparr>) = content d
    \<and> (\<forall>i<length (comments d).
          (\<exists>text flag. comments d' ! i = (comments d ! i)\<lparr>c_Comment := text, c_Censored := flag\<rparr>)
        \<and> (c_Key (comments d ! i) = cc_Token cc @ cc_CommentID cc \<longrightarrow>
             comments d' ! i = (comments d ! i)\<lparr>c_Comment := [], c_Censored := True\<rparr>))
    \<and> (\<forall>out2 d2. cmdCensorComment cd d' cmdPayload replyPayload = ((out2, None), d2) \<longrightarrow>
          content d2 = content d')"
proof -
  let ?key = "cc_Token cc @ cc_CommentID cc"
  note d' = cmdCensorComment_ok [OF dec run]
  have 1: "length (comments d') = length (comments d)" by (simp add: d')
  have 2: "content (d'\<lparr>comments := comments d\<rparr>) = content d"
    by (simp add: d' content_def)
  have 3: "\<forall>i<length (comments d).
          (\<exists>text flag. comments d' ! i = (comments d ! i)\<lparr>c_Comment := text, c_Censored := flag\<rparr>)
        \<and> (c_Key (comments d ! i) = ?key \<longrightarrow>
             comments d' ! i = (comments d ! i)\<lparr>c_Comment := [], c_Censored := True\<rparr>)"
  proof (intro allI impI conjI)
    fix i assume i: "i < length (comments d)"
    let ?c = "comments d ! i"
    from i have n: "comments d' ! i = censor ?key ?c" by (simp add: d')
    from censor_cases [of ?key ?c]
    show "\<exists>text flag. comments d' ! i = ?c\<lparr>c_Comment := text, c_Censored := flag\<rparr>"
    proof
      assume "censor ?key ?c = ?c"
      then have "comments d' ! i = ?c\<lparr>c_Comment := c_Comment ?c, c_Censored := c_Censored ?c\<rparr>"
        by (simp add: n)
      then show ?thesis by blast
    next
      assume "censor ?key ?c = ?c\<lparr>c_Comment := [], c_Censored := True\<rparr>"
      then have "comments d' ! i = ?c\<lparr>c_Comment := [], c_Censored := True\<rparr>" by (simp add: n)
      then show ?thesis by blast
    qed
    show "comments d' ! i = ?c\<lparr>c_Comment := [], c_Censored := True\<rparr>" if "c_Key ?c = ?key"
      using that by (simp add: n censor_hit)
  qed
  have 4: "\<forall>out2 d2. cmdCensorComment cd d' cmdPayload replyPayload = ((out2, None), d2) \<longrightarrow>
          content d2 = content d'"
  proof (intro allI impI)
    fix out2 d2
    assume "cmdCensorComment cd d' cmdPayload replyPayload = ((out2, None), d2)"
    from cmdCensorComment_ok [OF dec this]
    show "content d2 = content d'" by (simp add: d' content_def censor_idem)
  qed
  from 1 2 3 4 show ?thesis by blast
qed

text \<open>The run of C6: comment 1 of \<open>ab\<close> is censored, once and a second time.\<close>

theorem censor_comment_frame_witness:
  "cmdCensorComment demo_codec (empty_cache\<lparr>comments := [demo_comment]\<rparr>) ''ab:1'' ''reply''
     = ((''reply'', None),
        empty_cache\<lparr>comments := [demo_comment\<lparr>c_Comment := [], c_Censored := True\<rparr>]\<rparr>)
   \<and> c_Upvotes (demo_comment\<lparr>c_Comment := [], c_Censored := True\<rparr>) = 3
   \<and> cmdCensorComment demo_codec
         (empty_cache\<lparr>comments := [demo_comment\<lparr>c_Comment := [], c_Censored := True\<rparr>]\<rparr>)
         ''ab:1'' ''reply''
     = ((''reply'', None),
        empty_cache\<lparr>comments := [demo_comment\<lparr>c_Comment := [], c_Censored := True\<rparr>]\<rparr>)"
proof -
  let ?d = "empty_cache\<lparr>comments := [demo_comment]\<rparr>"
  let ?d' = "empty_cache\<lparr>comments := [demo_comment\<lparr>c_Comment := [], c_Censored := True\<rparr>]\<rparr>"
  have dec: "DecodeCensorComment demo_codec ''ab:1'' = Inr \<lparr>cc_Token = ''ab'', cc_CommentID = ''1''\<rparr>"
    by (simp add: demo_codec_def split_eval)
  have run: "cmdCensorComment demo_codec ?d ''ab:1'' ''reply'' = ((''reply'', None), ?d')"
    by (simp add: cmdCensorComment_def dec db_exec_eq store_eval censor_def demo_comment_def)
  have again: "cmdCensorComment demo_codec ?d' ''ab:1'' ''reply'' = ((''reply'', None), ?d')"
    by (simp add: cmdCensorComment_def dec db_exec_eq store_eval censor_def demo_comment_def)
  from censor_comment_frame [OF dec run] run again
  show ?thesis by (simp add: demo_comment_def)
qed

subsection \<open>Authorize vote\<close>

lemma newAuthorizeVote_ok:
  assumes "newAuthorizeVote tx av = (None, tx')"
  shows "tx' = tx\<lparr>faults := tl (tl (faults tx)),
                  authorize_votes := filter (\<lambda>a. av_Key a \<noteq> av_Key av) (authorize_votes tx) @ [av]\<rparr>"
  using assms by (auto simp: newAuthorizeVote_def db_exec_eq split: if_splits)

lemma cmdAuthorizeVote_ok:
  assumes da: "DecodeAuthorizeVote cd p = Inr a"
    and dr: "DecodeAuthorizeVoteReply cd r = Inr ar"
    and run: "cmdAuthorizeVote cd d p r = ((out, None), d')"
  shows "\<exists>v. ParseUint (avr_RecordVersion ar) = Inr v \<and> out = r \<and>
           d' = d\<lparr>faults := tl (tl (tl (faults d))),
                  authorize_votes :=
                    filter (\<lambda>x. av_Key x \<noteq> bav_Token a @ avr_RecordVersion ar) (authorize_votes d)
                    @ [convertAuthorizeVoteFromBitum a ar v]\<rparr>"
proof -
  from run da dr obtain v where v: "ParseUint (avr_RecordVersion ar) = Inr v"
    by (cases "ParseUint (avr_RecordVersion ar)") (auto simp: cmdAuthorizeVote_def)
  let ?av = "convertAuthorizeVoteFromBitum a ar v"
  from run da dr v obtain tx where tx: "newAuthorizeVote (Begin d) ?av = (None, tx)"
    and c: "Commit d tx = (None, d')" and out: "out = r"
    by (auto simp: cmdAuthorizeVote_def split: prod.splits option.splits)
  have key: "av_Key ?av = bav_Token a @ avr_RecordVersion ar"
    by (simp add: convertAuthorizeVoteFromBitum_def)
  from newAuthorizeVote_ok [OF tx] Commit_ok [OF c] key v out
  show ?thesis by (simp add: Begin_def)
qed

lemma distinct_replace:
  "distinct (map f xs) \<Longrightarrow> distinct (map f (filter (\<lambda>x. f x \<noteq> f y) xs @ [y]))"
  by (auto simp: distinct_map_filter)

text \<open>
  C5. After two successful authorize-vote commands with the same token and record
  version, exactly one authorize vote row has that key, and it is the row of the second
  command. A successful authorize-vote command leaves exactly one row with its key, and
  keeps the keys of the table distinct when they were.
\<close>

theorem authorize_vote_replaces:
  assumes c1: "DecodeAuthorizeVote cd p1 = Inr a1" "DecodeAuthorizeVoteReply cd r1 = Inr ar1"
    and c2: "DecodeAuthorizeVote cd p2 = Inr a2" "DecodeAuthorizeVoteReply cd r2 = Inr ar2"
    and same: "bav_Token a1 = bav_Token a2" "avr_RecordVersion ar1 = avr_RecordVersion ar2"
    and run1: "cmdAuthorizeVote cd d p1 r1 = ((out1, None), d1)"
    and run2: "cmdAuthorizeVote cd d1 p2 r2 = ((out2, None), d2)"
  shows "(\<exists>v. ParseUint (avr_RecordVersion ar2) = Inr v \<and>
            filter (\<lambda>x. av_Key x = bav_Token a2 @ avr_RecordVersion ar2) (authorize_votes d2)
              = [convertAuthorizeVoteFromBitum a2 ar2 v])
       \<and> length (filter (\<lambda>x. av_Key x = bav_Token a1 @ avr_RecordVersion ar1) (authorize_votes d1)) = 1
       \<and> (distinct (map av_Key (authorize_votes d)) \<longrightarrow>
            distinct (map av_Key (authorize_votes d1)) \<and> distinct (map av_Key (authorize_votes d2)))"
proof -
  from cmdAuthorizeVote_ok [OF c1 run1] obtain v1 where
    d1: "authorize_votes d1 =
           filter (\<lambda>x. av_Key x \<noteq> bav_Token a1 @ avr_RecordVersion ar1) (authorize_votes d)
           @ [convertAuthorizeVoteFromBitum a1 ar1 v1]"
    by auto
  from cmdAuthorizeVote_ok [OF c2 run2] obtain v2 where
    v2: "ParseUint (avr_RecordVersion ar2) = Inr v2" and
    d2: "authorize_votes d2 =
           filter (\<lambda>x. av_Key x \<noteq> bav_Token a2 @ avr_RecordVersion ar2) (authorize_votes d1)
           @ [convertAuthorizeVoteFromBitum a2 ar2 v2]"
    by auto
  have k1: "av_Key (convertAuthorizeVoteFromBitum a1 ar1 v1) = bav_Token a1 @ avr_RecordVersion ar1"
    and k2: "av_Key (convertAuthorizeVoteFromBitum a2 ar2 v2) = bav_Token a2 @ avr_RecordVersion ar2"
    by (simp_all add: convertAuthorizeVoteFromBitum_def)
  have one2: "filter (\<lambda>x. av_Key x = bav_Token a2 @ avr_RecordVersion ar2) (authorize_votes d2)
              = [convertAuthorizeVoteFromBitum a2 ar2 v2]"
    by (simp add: d2 k2 filter_empty_conv)
  have one1: "length (filter (\<lambda>x. av_Key x = bav_Token a1 @ avr_RecordVersion ar1) (authorize_votes d1)) = 1"
    by (simp add: d1 k1 filter_empty_conv)
  have inv: "distinct (map av_Key (authorize_votes d)) \<longrightarrow>
            distinct (map av_Key (authorize_votes d1)) \<and> distinct (map av_Key (authorize_votes d2))"
  proof
    assume dd: "distinct (map av_Key (authorize_votes d))"
    have i1: "distinct (map av_Key (authorize_votes d1))"
      unfolding d1 k1 [symmetric] by (rule distinct_replace [OF dd])
    have i2: "distinct (map av_Key (authorize_votes d2))"
      unfolding d2 k2 [symmetric] by (rule distinct_replace [OF i1])
    from i1 i2 show "distinct (map av_Key (authorize_votes d1)) \<and> distinct (map av_Key (authorize_votes d2))" ..
  qed
  from v2 one2 one1 inv show ?thesis by blast
qed

text \<open>The run of C5: an authorize and then a revoke for version 1 of \<open>ab\<close>.\<close>

theorem authorize_vote_replaces_witness:
  "\<exists>d1 d2 v.
     cmdAuthorizeVote demo_codec empty_cache ''ab:authorize'' ''1:rc1'' = ((''1:rc1'', None), d1)
   \<and> cmdAuthorizeVote demo_codec d1 ''ab:revoke'' ''1:rc2'' = ((''1:rc2'', None), d2)
   \<and> filter (\<lambda>x. av_Key x = ''ab1'') (authorize_votes d2)
        = [\<lparr>av_Key = ''ab1'', av_Token = ''ab'', av_Version = v, av_Action = ''revoke'',
            av_Signature = [], av_PublicKey = [], av_Receipt = ''rc2'', av_Timestamp = 0\<rparr>]
   \<and> distinct (map av_Key (authorize_votes d2))"
proof -
  let ?a1 = "\<lparr>bav_Token = ''ab'', bav_Action = ''authorize'', bav_Signature = [], bav_PublicKey = [],
                          bav_Receipt = []\<rparr>"
  let ?a2 = "\<lparr>bav_Token = ''ab'', bav_Action = ''revoke'', bav_Signature = [], bav_PublicKey = [],
                          bav_Receipt = []\<rparr>"
  let ?r1 = "\<lparr>avr_Action = [], avr_RecordVersion = ''1'', avr_Receipt = ''rc1'', avr_Timestamp = 0\<rparr>"
  let ?r2 = "\<lparr>avr_Action = [], avr_RecordVersion = ''1'', avr_Receipt = ''rc2'', avr_Timestamp = 0\<rparr>"
  let ?d1 = "empty_cache\<lparr>authorize_votes := [convertAuthorizeVoteFromBitum ?a1 ?r1 1]\<rparr>"
  let ?d2 = "empty_cache\<lparr>authorize_votes := [convertAuthorizeVoteFromBitum ?a2 ?r2 1]\<rparr>"
  have c1: "DecodeAuthorizeVote demo_codec ''ab:authorize'' = Inr ?a1"
    "DecodeAuthorizeVoteReply demo_codec ''1:rc1'' = Inr ?r1"
    by (simp_all add: demo_codec_def split_eval)
  have c2: "DecodeAuthorizeVote demo_codec ''ab:revoke'' = Inr ?a2"
    "DecodeAuthorizeVoteReply demo_codec ''1:rc2'' = Inr ?r2"
    by (simp_all add: demo_codec_def split_eval)
  have pu: "ParseUint ''1'' = Inr 1"
    by (simp add: ParseUint_def is_digit_def digit_val_def)
  have run1: "cmdAuthorizeVote demo_codec empty_cache ''ab:authorize'' ''1:rc1'' = ((''1:rc1'', None), ?d1)"
    by (simp add: cmdAuthorizeVote_def c1 pu newAuthorizeVote_def Begin_def Commit_def db_exec_eq
        store_eval convertAuthorizeVoteFromBitum_def)
  have run2: "cmdAuthorizeVote demo_codec ?d1 ''ab:revoke'' ''1:rc2'' = ((''1:rc2'', None), ?d2)"
    by (simp add: cmdAuthorizeVote_def c2 pu newAuthorizeVote_def Begin_def Commit_def db_exec_eq
        store_eval convertAuthorizeVoteFromBitum_def)
  have same: "bav_Token ?a1 = bav_Token ?a2" "avr_RecordVersion ?r1 = avr_RecordVersion ?r2"
    by simp_all
  from authorize_vote_replaces [OF c1 c2 same run1 run2] pu
  have "filter (\<lambda>x. av_Key x = ''ab1'') (authorize_votes ?d2) = [convertAuthorizeVoteFromBitum ?a2 ?r2 1]
     \<and> distinct (map av_Key (authorize_votes ?d2))"
    by (simp add: empty_cache_def)
  with run1 run2 show ?thesis
    by (simp add: convertAuthorizeVoteFromBitum_def)
qed

subsection \<open>Ballots\<close>

lemma newCastVote_eq:
  "newCastVote tx cv =
     (if store_ok [tableCastVotes] tx
      then (None, tx\<lparr>faults := tl (faults tx), cast_votes := cast_votes tx @ [cv]\<rparr>)
      else (Some StoreFault, tx\<lparr>faults := tl (faults tx)\<rparr>))"
  by (simp add: newCastVote_def db_exec_eq)

lemma ballot_loop_ok:
  "ballot_loop tx votes = (None, tx') \<Longrightarrow>
     content tx' = content (tx\<lparr>cast_votes := cast_votes tx @ map convertCastVoteFromBitum votes\<rparr>)"
proof (induction votes arbitrary: tx)
  case Nil
  then show ?case by simp
next
  case (Cons v vs)
  from Cons.prems have ok: "store_ok [tableCastVotes] tx"
    by (auto simp: newCastVote_eq split: if_splits)
  let ?tx1 = "tx\<lparr>faults := tl (faults tx), cast_votes := cast_votes tx @ [convertCastVoteFromBitum v]\<rparr>"
  from Cons.prems ok have "ballot_loop ?tx1 vs = (None, tx')"
    by (simp add: newCastVote_eq)
  from Cons.IH [OF this] show ?case by (simp add: content_def)
qed

text \<open>
  C7. The cast-ballot handler inserts the votes in one transaction. When an insert fails,
  the handler returns that error itself and the tables are as before; when every insert
  and the commit succeed, it returns the reply payload unchanged and the cast vote table
  has gained the votes of the ballot, in order. Whenever the handler returns an error, no
  row of the ballot is visible.
\<close>

theorem ballot_all_or_nothing:
  assumes dec: "DecodeBallot cd cmdPayload = Inr votes"
  shows "(\<forall>err tx. ballot_loop (Begin d) votes = (Some err, tx) \<longrightarrow>
            fst (cmdNewBallot cd d cmdPayload replyPayload) = ([], Some err)
            \<and> content (snd (cmdNewBallot cd d cmdPayload replyPayload)) = content d)
       \<and> (\<forall>tx d'. ballot_loop (Begin d) votes = (None, tx) \<and> Commit d tx = (None, d') \<longrightarrow>
            cmdNewBallot cd d cmdPayload replyPayload = ((replyPayload, None), d')
            \<and> content d' = content (d\<lparr>cast_votes := cast_votes d @ map convertCastVoteFromBitum votes\<rparr>))
       \<and> (\<forall>out err d'. cmdNewBallot cd d cmdPayload replyPayload = ((out, Some err), d') \<longrightarrow>
            out = [] \<and> content d' = content d)"
proof (intro conjI allI impI)
  fix err tx
  assume "ballot_loop (Begin d) votes = (Some err, tx)"
  with dec show "fst (cmdNewBallot cd d cmdPayload replyPayload) = ([], Some err)"
    and "content (snd (cmdNewBallot cd d cmdPayload replyPayload)) = content d"
    by (simp_all add: cmdNewBallot_def Rollback_def content_def)
next
  fix tx d'
  assume a: "ballot_loop (Begin d) votes = (None, tx) \<and> Commit d tx = (None, d')"
  with dec show "cmdNewBallot cd d cmdPayload replyPayload = ((replyPayload, None), d')"
    by (simp add: cmdNewBallot_def)
  from a have "content tx = content (d\<lparr>cast_votes := cast_votes d @ map convertCastVoteFromBitum votes\<rparr>)"
    using ballot_loop_ok [of "Begin d" votes tx] by (simp add: Begin_def)
  moreover from a have "content d' = content tx"
    using Commit_ok [of d tx d'] by (simp add: content_def)
  ultimately show "content d' = content (d\<lparr>cast_votes := cast_votes d @ map convertCastVoteFromBitum votes\<rparr>)"
    by simp
next
  fix out err d'
  assume run: "cmdNewBallot cd d cmdPayload replyPayload = ((out, Some err), d')"
  obtain r tx where l: "ballot_loop (Begin d) votes = (r, tx)" by fastforce
  show "out = []"
    using run dec l by (auto simp: cmdNewBallot_def split: option.splits prod.splits)
  show "content d' = content d"
  proof (cases r)
    case (Some e)
    with run dec l show ?thesis by (auto simp: cmdNewBallot_def Rollback_def content_def)
  next
    case None
    with run dec l obtain e where "Commit d tx = (Some e, d')"
      by (auto simp: cmdNewBallot_def split: option.splits prod.splits)
    from Commit_fail [OF this] show ?thesis by (simp add: content_def)
  qed
qed

text \<open>The run of C7: a ballot of two votes, with the second insert failing and with none failing.\<close>

theorem ballot_all_or_nothing_witness:
  "fst (cmdNewBallot demo_codec (empty_cache\<lparr>faults := [False, True]\<rparr>) ''ab:t1:1;ab:t2:2'' ''reply'')
     = ([], Some StoreFault)
   \<and> content (snd (cmdNewBallot demo_codec (empty_cache\<lparr>faults := [False, True]\<rparr>)
                      ''ab:t1:1;ab:t2:2'' ''reply''))
     = content empty_cache
   \<and> cmdNewBallot demo_codec empty_cache ''ab:t1:1;ab:t2:2'' ''reply''
     = ((''reply'', None),
        empty_cache\<lparr>cast_votes :=
          [\<lparr>cv_Token = ''ab'', cv_Ticket = ''t1'', cv_VoteBit = ''1'', cv_Signature = [],
            cv_TokenVoteBit = ''ab1''\<rparr>,
           \<lparr>cv_Token = ''ab'', cv_Ticket = ''t2'', cv_VoteBit = ''2'', cv_Signature = [],
            cv_TokenVoteBit = ''ab2''\<rparr>]\<rparr>)"
proof -
  let ?v1 = "\<lparr>bcv_Token = ''ab'', bcv_Ticket = ''t1'', bcv_VoteBit = ''1'', bcv_Signature = []\<rparr>"
  let ?v2 = "\<lparr>bcv_Token = ''ab'', bcv_Ticket = ''t2'', bcv_VoteBit = ''2'', bcv_Signature = []\<rparr>"
  let ?bad = "empty_cache\<lparr>faults := [False, True]\<rparr>"
  let ?good = "empty_cache\<lparr>cast_votes := map convertCastVoteFromBitum [?v1, ?v2]\<rparr>"
  have dec: "DecodeBallot demo_codec ''ab:t1:1;ab:t2:2'' = Inr [?v1, ?v2]"
    by (simp add: demo_codec_def decode_vote_def split_eval)
  have fail: "ballot_loop (Begin ?bad) [?v1, ?v2]
      = (Some StoreFault, empty_cache\<lparr>cast_votes := [convertCastVoteFromBitum ?v1]\<rparr>)"
    by (simp add: Begin_def newCastVote_eq store_eval)
  have succ: "ballot_loop (Begin empty_cache) [?v1, ?v2] = (None, ?good)
      \<and> Commit empty_cache ?good = (None, ?good)"
    by (simp add: Begin_def newCastVote_eq Commit_def store_eval)
  from ballot_all_or_nothing [OF dec, of ?bad "''reply''"] fail
  have 1: "fst (cmdNewBallot demo_codec ?bad ''ab:t1:1;ab:t2:2'' ''reply'') = ([], Some StoreFault)
     \<and> content (snd (cmdNewBallot demo_codec ?bad ''ab:t1:1;ab:t2:2'' ''reply'')) = content ?bad"
    by blast
  from ballot_all_or_nothing [OF dec, of empty_cache "''reply''"] succ
  have 2: "cmdNewBallot demo_codec empty_cache ''ab:t1:1;ab:t2:2'' ''reply'' = ((''reply'', None), ?good)"
    by blast
  from 1 2 show ?thesis
    by (simp add: content_def convertCastVoteFromBitum_def)
qed

subsection \<open>The tally\<close>

lemma tally_votes_foldl:
  "foldl (\<lambda>tally v. tally(cv_VoteBit v := tally (cv_VoteBit v) + 1)) t cv b
     = t b + of_nat (length (filter (\<lambda>v. cv_VoteBit v = b) cv))"
  by (induction cv arbitrary: t) (simp_all add: add.assoc)

lemma tally_votes_count:
  "tally_votes cv b = of_nat (length (filter (\<lambda>v. cv_VoteBit v = b) cv))"
  by (simp add: tally_votes_def tally_votes_foldl)

lemma vote_approved_iff:
  "vote_approved sv results \<longleftrightarrow>
     quorum sv \<le> total_votes results \<and> pass sv (total_votes results) \<le> approvedVotes results"
  by (auto simp: vote_approved_def)

lemma newVoteResults_success:
  assumes ok1: "store_ok [tableStartVotes, tableVoteOptions] d"
    and first: "filter (\<lambda>s. sv_Token s = t) (start_votes d) = rest @ [sv]"
    and ok2: "store_ok [tableCastVotes] (d\<lparr>faults := tl (faults d)\<rparr>)"
    and ok3: "store_ok [tableVoteResults, tableVoteOptionResults] (d\<lparr>faults := tl (tl (faults d))\<rparr>)"
  shows "newVoteResults d t =
     (None, d\<lparr>faults := tl (tl (tl (faults d))),
              vote_results := vote_results d @
                [\<lparr>vr_Token = t,
                  vr_Approved = vote_approved sv (option_results t sv (filter (\<lambda>v. cv_Token v = t) (cast_votes d))),
                  vr_Results = option_results t sv (filter (\<lambda>v. cv_Token v = t) (cast_votes d))\<rparr>]\<rparr>)"
  using assms
  by (simp add: newVoteResults_def db_first_eq db_query_eq db_exec_eq or_zero_def)

lemma demo_start_vote_fields [simp]:
  "sv_Token (demo_start_vote t q ts e) = t"
  "sv_EndHeight (demo_start_vote t q ts e) = e"
  "sv_Options (demo_start_vote t q ts e) = demo_options t"
  "sv_QuorumPercentage (demo_start_vote t q ts e) = q"
  "sv_PassPercentage (demo_start_vote t q ts e) = 60"
  "sv_EligibleTickets (demo_start_vote t q ts e) = strings_Join ts '',''"
  by (simp_all add: demo_start_vote_def)

lemma demo_cast_vote_fields [simp]:
  "cv_Token (demo_cast_vote t k b) = t"
  "cv_VoteBit (demo_cast_vote t k b) = b"
  by (simp_all add: demo_cast_vote_def)

lemma format_bits: "FormatUint 2 16 = ''2''" "FormatUint 1 16 = ''1''"
  by (simp_all add: FormatUint_def digit_char_def)

lemma demo_option_results:
  "option_results t (demo_start_vote t q ts e) cv =
     [\<lparr>vor_Key = t @ ''2'', vor_Votes = of_nat (length (filter (\<lambda>v. cv_VoteBit v = ''2'') cv)),
       vor_Option = hd (demo_options t)\<rparr>,
      \<lparr>vor_Key = t @ ''1'', vor_Votes = of_nat (length (filter (\<lambda>v. cv_VoteBit v = ''1'') cv)),
       vor_Option = last (demo_options t)\<rparr>]"
  by (simp add: option_results_def demo_options_def format_bits tally_votes_count)

lemma quorum_tickets_length: "length quorum_tickets = 50"
  by (simp add: quorum_tickets_def)

lemma quorum_tickets_eligible: "eligible (demo_start_vote t q quorum_tickets e) = 50"
  by (simp add: eligible_def strings_Split_length quorum_tickets_def strings_Join_def)

lemma quorum_cache_vote:
  "percent_of 58 50 = 28" "percent_of 60 28 = 16"
  by (simp_all add: f64_eval)

text \<open>
  C1. The stored approved flag follows the two thresholds as \<open>newVoteResults\<close> computes
  them (\<open>vote_approved_iff\<close>), but these are products of \<open>float64\<close> values cut to an
  integer, not exact floors. With a quorum of 58 percent and 50 eligible tickets the
  quotient 58 / 100 is rounded below 0.58 and the product to 28.999999999999996, so the
  quorum is 28 where the floor of 58 percent of 50 is 29: a vote with 28 votes, all for
  yes, is stored as approved although it misses the quorum of the specification.
\<close>

theorem quorum_rounds_below_floor:
  "newVoteResults quorum_cache ''q58''
     = (None, quorum_cache\<lparr>vote_results :=
          [\<lparr>vr_Token = ''q58'', vr_Approved = True,
            vr_Results = option_results ''q58'' (demo_start_vote ''q58'' 58 quorum_tickets 100)
                           (cast_votes quorum_cache)\<rparr>]\<rparr>)
   \<and> total_votes (option_results ''q58'' (demo_start_vote ''q58'' 58 quorum_tickets 100)
                     (cast_votes quorum_cache)) = 28
   \<and> eligible (demo_start_vote ''q58'' 58 quorum_tickets 100) = 50
   \<and> quorum (demo_start_vote ''q58'' 58 quorum_tickets 100) = 28
   \<and> spec_quorum (demo_start_vote ''q58'' 58 quorum_tickets 100) = 29
   \<and> \<not> spec_approved (demo_start_vote ''q58'' 58 quorum_tickets 100)
         (option_results ''q58'' (demo_start_vote ''q58'' 58 quorum_tickets 100)
            (cast_votes quorum_cache))"
proof -
  let ?sv = "demo_start_vote ''q58'' 58 quorum_tickets 100"
  let ?cv = "cast_votes quorum_cache"
  let ?rs = "option_results ''q58'' ?sv ?cv"
  have len: "length (filter (\<lambda>v. cv_VoteBit v = ''2'') ?cv) = 28"
    "length (filter (\<lambda>v. cv_VoteBit v = ''1'') ?cv) = 0"
    by (simp_all add: quorum_cache_def quorum_tickets_length o_def)
  have rs: "?rs = [\<lparr>vor_Key = ''q582'', vor_Votes = 28, vor_Option = hd (demo_options ''q58'')\<rparr>,
                   \<lparr>vor_Key = ''q581'', vor_Votes = 0, vor_Option = last (demo_options ''q58'')\<rparr>]"
    unfolding demo_option_results len by simp
  have total: "total_votes ?rs = 28"
    unfolding rs by (simp add: total_votes_def)
  have yes: "approvedVotes ?rs = 28"
    unfolding rs by (simp add: approvedVotes_def demo_options_def voteOptionIDApproved_def)
  have el: "eligible ?sv = 50" by (rule quorum_tickets_eligible)
  have q: "quorum ?sv = 28" by (simp add: quorum_def el quorum_cache_vote)
  have p: "pass ?sv 28 = 16" by (simp add: pass_def quorum_cache_vote)
  have appr: "vote_approved ?sv ?rs"
    unfolding vote_approved_iff total yes q p by simp
  have sq: "spec_quorum ?sv = 29" by (simp add: spec_quorum_def el)
  have nspec: "\<not> spec_approved ?sv ?rs"
    unfolding spec_approved_def total sq by simp
  have first: "filter (\<lambda>s. sv_Token s = ''q58'') (start_votes quorum_cache) = [] @ [?sv]"
    by (simp add: quorum_cache_def)
  have cvs: "filter (\<lambda>v. cv_Token v = ''q58'') ?cv = ?cv"
    by (simp add: quorum_cache_def o_def)
  have run: "newVoteResults quorum_cache ''q58''
     = (None, quorum_cache\<lparr>vote_results := [\<lparr>vr_Token = ''q58'', vr_Approved = True, vr_Results = ?rs\<rparr>]\<rparr>)"
    using appr
    by (subst newVoteResults_success [OF _ first])
       (simp_all add: cvs store_ok_def attempt_def quorum_cache_def empty_cache_def table_names)
  from run total el q sq nspec show ?thesis by blast
qed

subsection \<open>Loading vote results\<close>

lemma newVoteResults_effect:
  assumes "newVoteResults d t = (e, d')"
  shows "start_votes d' = start_votes d \<and>
         (vote_results d' = vote_results d \<or>
          (\<exists>r. vote_results d' = vote_results d @ [r] \<and> vr_Token r = t \<and>
               (\<exists>s\<in>set (start_votes d). sv_Token s = t)))"
proof -
  obtain r1 d1 where q1: "db_first [tableStartVotes, tableVoteOptions]
             (\<lambda>db. filter (\<lambda>s. sv_Token s = t) (start_votes db)) d = (r1, d1)" by fastforce
  note f1 = db_first_frame [OF q1]
  show ?thesis
  proof (cases r1)
    case (Inl err)
    with assms q1 f1 show ?thesis by (auto simp: newVoteResults_def)
  next
    case (Inr sv)
    with q1 have "sv \<in> set (filter (\<lambda>s. sv_Token s = t) (start_votes d1))"
      using db_first_in by fastforce
    with f1 have sv: "\<exists>s\<in>set (start_votes d). sv_Token s = t" by auto
    obtain r2 d2 where q2: "db_query [tableCastVotes]
        (\<lambda>db. filter (\<lambda>v. cv_Token v = t) (cast_votes db)) d1 = (r2, d2)" by fastforce
    note f2 = db_query_frame [OF q2]
    show ?thesis
    proof (cases "or_zero [] r2")
      case (Inl err)
      with assms q1 q2 Inr f1 f2 show ?thesis by (auto simp: newVoteResults_def)
    next
      case cv: (Inr cv)
      with assms q1 q2 Inr f1 f2 sv show ?thesis
        by (auto simp: newVoteResults_def db_exec_eq split: if_splits)
    qed
  qed
qed

lemma load_loop_effect:
  "load_loop d ts = (e, d') \<Longrightarrow>
     start_votes d' = start_votes d \<and>
     (\<exists>new. vote_results d' = vote_results d @ new \<and> (\<forall>r\<in>set new. vr_Token r \<in> set ts))"
proof (induction ts arbitrary: d)
  case Nil
  then show ?case by simp
next
  case (Cons t ts)
  obtain e1 d1 where n: "newVoteResults d t = (e1, d1)" by fastforce
  from newVoteResults_effect [OF n]
  have s1: "start_votes d1 = start_votes d"
    and v1: "\<exists>new. vote_results d1 = vote_results d @ new \<and> (\<forall>r\<in>set new. vr_Token r = t)"
    by auto
  show ?case
  proof (cases e1)
    case (Some err)
    with Cons.prems n have "d' = d1" by simp
    with s1 v1 show ?thesis by auto
  next
    case None
    with Cons.prems n have "load_loop d1 ts = (e, d')" by simp
    from Cons.IH [OF this] s1 v1 show ?thesis by auto
  qed
qed

lemma finished_without_results_faults [simp]:
  "finished_without_results b (d\<lparr>faults := f\<rparr>) = finished_without_results b d"
  by (simp add: finished_without_results_def)

lemma finished_without_results_fresh:
  "t \<in> set (finished_without_results b d) \<Longrightarrow>
     (\<exists>s\<in>set (start_votes d). sv_Token s = t \<and> sv_EndHeight s \<le> b) \<and>
     (\<forall>r\<in>set (vote_results d). vr_Token r \<noteq> t)"
  by (auto simp: finished_without_results_def list_ex_iff)

text \<open>
  C2. The load-vote-results command only appends vote result rows, each for a token that
  had no vote result row and has a start vote that ended at or before the reference
  height. For a token that already has a vote result row, the rows of that token (with
  their option results) are the same after the command as before, whatever the height.
\<close>

theorem load_vote_results_keeps_existing:
  assumes run: "cmdLoadVoteResults cd d payload = (res, d')"
  shows "(\<exists>new. vote_results d' = vote_results d @ new \<and>
            (\<forall>r\<in>set new.
               (\<forall>x\<in>set (vote_results d). vr_Token x \<noteq> vr_Token r) \<and>
               (\<exists>s\<in>set (start_votes d) . \<exists>bestBlock.
                  DecodeLoadVoteResults cd payload = Inr bestBlock \<and>
                  sv_Token s = vr_Token r \<and> sv_EndHeight s \<le> bestBlock)))
       \<and> (\<forall>t. (\<exists>x\<in>set (vote_results d). vr_Token x = t) \<longrightarrow>
             filter (\<lambda>r. vr_Token r = t) (vote_results d') = filter (\<lambda>r. vr_Token r = t) (vote_results d))"
proof -
  have main: "\<exists>new. vote_results d' = vote_results d @ new \<and>
            (\<forall>r\<in>set new.
               (\<forall>x\<in>set (vote_results d). vr_Token x \<noteq> vr_Token r) \<and>
               (\<exists>s\<in>set (start_votes d). \<exists>bestBlock.
                  DecodeLoadVoteResults cd payload = Inr bestBlock \<and>
                  sv_Token s = vr_Token r \<and> sv_EndHeight s \<le> bestBlock))"
  proof (cases "DecodeLoadVoteResults cd payload")
    case (Inl err)
    with run have "d' = d" by (simp add: cmdLoadVoteResults_def)
    then show ?thesis by simp
  next
    case (Inr bestBlock)
    obtain r1 d1 where q: "db_query [tableStartVotes, tableVoteResults]
        (finished_without_results bestBlock) d = (r1, d1)" by fastforce
    note f1 = db_query_frame [OF q]
    show ?thesis
    proof (cases r1)
      case (Inl err)
      with run Inr q f1 show ?thesis by (auto simp: cmdLoadVoteResults_def)
    next
      case tokens: (Inr tokens)
      with q f1 have tk: "tokens = finished_without_results bestBlock d"
        by (auto simp: db_query_eq split: if_splits)
      obtain e2 d2 where l: "load_loop d1 tokens = (e2, d2)" by fastforce
      from run Inr q tokens l have "d' = d2"
        by (auto simp: cmdLoadVoteResults_def split: option.splits sum.splits)
      with load_loop_effect [OF l] f1 obtain new where
        new: "vote_results d' = vote_results d @ new" "\<forall>r\<in>set new. vr_Token r \<in> set tokens"
        by auto
      have "\<forall>r\<in>set new.
               (\<forall>x\<in>set (vote_results d). vr_Token x \<noteq> vr_Token r) \<and>
               (\<exists>s\<in>set (start_votes d). \<exists>b.
                  DecodeLoadVoteResults cd payload = Inr b \<and>
                  sv_Token s = vr_Token r \<and> sv_EndHeight s \<le> b)"
      proof
        fix r assume "r \<in> set new"
        with new(2) tk have "vr_Token r \<in> set (finished_without_results bestBlock d)" by simp
        from finished_without_results_fresh [OF this] Inr
        show "(\<forall>x\<in>set (vote_results d). vr_Token x \<noteq> vr_Token r) \<and>
               (\<exists>s\<in>set (start_votes d). \<exists>b.
                  DecodeLoadVoteResults cd payload = Inr b \<and>
                  sv_Token s = vr_Token r \<and> sv_EndHeight s \<le> b)" by auto
      qed
      with new(1) show ?thesis by blast
    qed
  qed
  then obtain new where new: "vote_results d' = vote_results d @ new"
    "\<forall>r\<in>set new. \<forall>x\<in>set (vote_results d). vr_Token x \<noteq> vr_Token r" by blast
  have "\<forall>t. (\<exists>x\<in>set (vote_results d). vr_Token x = t) \<longrightarrow>
             filter (\<lambda>r. vr_Token r = t) (vote_results d') = filter (\<lambda>r. vr_Token r = t) (vote_results d)"
  proof (intro allI impI)
    fix t assume "\<exists>x\<in>set (vote_results d). vr_Token x = t"
    with new(2) have "filter (\<lambda>r. vr_Token r = t) new = []"
      unfolding filter_empty_conv by metis
    then show "filter (\<lambda>r. vr_Token r = t) (vote_results d') = filter (\<lambda>r. vr_Token r = t) (vote_results d)"
      by (simp add: new(1))
  qed
  with main show ?thesis by blast
qed

text \<open>The run of C2 at height 100: \<open>bb\<close> is materialized, the row of \<open>aa\<close> stays.\<close>

theorem load_vote_results_keeps_existing_witness:
  "cmdLoadVoteResults demo_codec demo_cache ''100''
     = ((''{}'', None), demo_cache\<lparr>vote_results := [demo_result_aa, demo_result_bb]\<rparr>)
   \<and> filter (\<lambda>r. vr_Token r = ''aa'')
        (vote_results (demo_cache\<lparr>vote_results := [demo_result_aa, demo_result_bb]\<rparr>))
     = [demo_result_aa]"
proof -
  let ?sv = "demo_start_vote ''bb'' 20 demo_tickets 80"
  let ?cv = "[demo_cast_vote ''bb'' ''t1'' ''1'', demo_cast_vote ''bb'' ''t2'' ''1'']"
  let ?rs = "option_results ''bb'' ?sv ?cv"
  let ?d' = "demo_cache\<lparr>vote_results := [demo_result_aa, demo_result_bb]\<rparr>"
  have dec: "DecodeLoadVoteResults demo_codec ''100'' = Inr 100"
    by (simp add: demo_codec_def ParseUint_def is_digit_def digit_val_def)
  have tokens: "finished_without_results 100 demo_cache = [''bb'']"
    by (simp add: finished_without_results_def demo_cache_def empty_cache_def demo_result_aa_def)
  have rs: "?rs = vr_Results demo_result_bb"
    unfolding demo_option_results by (simp add: demo_result_bb_def)
  have el: "eligible ?sv = 5"
    by (simp add: eligible_def strings_Split_length demo_tickets_def strings_Join_def)
  have pc: "percent_of 20 5 = 1" "percent_of 60 2 = 1" by (simp_all add: f64_eval)
  have appr: "\<not> vote_approved ?sv ?rs"
    unfolding vote_approved_iff rs
    by (simp add: demo_result_bb_def total_votes_def approvedVotes_def demo_options_def
        voteOptionIDApproved_def quorum_def pass_def el pc)
  have first: "filter (\<lambda>s. sv_Token s = ''bb'') (start_votes (demo_cache\<lparr>faults := []\<rparr>)) = [] @ [?sv]"
    by (simp add: demo_cache_def)
  have cvs: "filter (\<lambda>v. cv_Token v = ''bb'') (cast_votes (demo_cache\<lparr>faults := []\<rparr>)) = ?cv"
    by (simp add: demo_cache_def)
  have new: "newVoteResults (demo_cache\<lparr>faults := []\<rparr>) ''bb'' = (None, ?d')"
    using appr rs
    by (subst newVoteResults_success [OF _ first])
       (simp_all add: cvs store_ok_def attempt_def demo_cache_def empty_cache_def table_names
          demo_result_bb_def)
  have run: "cmdLoadVoteResults demo_codec demo_cache ''100'' = ((''{}'', None), ?d')"
    using new
    by (simp add: cmdLoadVoteResults_def dec db_query_eq tokens)
       (simp add: store_ok_def attempt_def demo_cache_def empty_cache_def table_names demo_codec_def)
  have old: "\<exists>x\<in>set (vote_results demo_cache). vr_Token x = ''aa''"
    by (simp add: demo_cache_def demo_result_aa_def)
  from load_vote_results_keeps_existing [OF run] old
  have "filter (\<lambda>r. vr_Token r = ''aa'') (vote_results ?d')
      = filter (\<lambda>r. vr_Token r = ''aa'') (vote_results demo_cache)"
    by blast
  with run show ?thesis by (simp add: demo_cache_def demo_result_aa_def)
qed

subsection \<open>Decode errors\<close>

lemma Exec_VoteDetails: "Exec cd d CmdVoteDetails cmdPayload replyPayload = cmdVoteDetails cd d cmdPayload"
  by (simp add: Exec_def CmdVoteDetails_def CmdAuthorizeVote_def CmdStartVote_def)

lemma cmdVoteDetails_decode_error:
  "DecodeVoteDetails cd payload = Inl err \<Longrightarrow> cmdVoteDetails cd d payload = (([], None), d)"
  by (simp add: cmdVoteDetails_def)

lemma cmdVoteSummary_decode_error:
  "DecodeVoteSummary cd payload = Inl err \<Longrightarrow> cmdVoteSummary cd d payload = (([], Some err), d)"
  by (simp add: cmdVoteSummary_def)

lemma cmdProposalVotes_decode_error:
  "DecodeVoteResults cd payload = Inl err \<Longrightarrow> cmdProposalVotes cd d payload = (([], Some err), d)"
  by (simp add: cmdProposalVotes_def)

text \<open>
  C8. Every handler that decodes a payload returns the decoder's error, and \<open>Exec\<close>
  returns what the handler returns; \<open>cmdVoteDetails\<close> alone returns a nil error when its
  payload does not decode. On the empty payload, which the decoder rejects, the
  vote-details command answers with an empty reply and no error, where the
  proposal-votes command, its sibling, answers with the decoder's error.
\<close>

theorem vote_details_swallows_decode_error:
  "DecodeVoteDetails demo_codec [] = Inl (CodecError [])
   \<and> Exec demo_codec empty_cache CmdVoteDetails [] [] = (([], None), empty_cache)
   \<and> DecodeVoteResults demo_codec [] = Inl (CodecError [])
   \<and> cmdProposalVotes demo_codec empty_cache [] = (([], Some (CodecError [])), empty_cache)"
proof -
  have dec: "DecodeVoteDetails demo_codec [] = Inl (CodecError [])"
    "DecodeVoteResults demo_codec [] = Inl (CodecError [])"
    by (simp_all add: demo_codec_def decode_token_def)
  from dec cmdVoteDetails_decode_error [OF dec(1)] cmdProposalVotes_decode_error [OF dec(2)]
  show ?thesis by (simp add: Exec_VoteDetails)
qed

subsection \<open>Rebuild\<close>

lemma delete_version_eq:
  "delete_version d =
     (if store_ok [tableVersions] d
      then (None, d\<lparr>faults := tl (faults d),
                    versions := filter (\<lambda>v. v_ID v \<noteq> bitumplugin_ID) (versions d)\<rparr>)
      else (Some StoreFault, d\<lparr>faults := tl (faults d)\<rparr>))"
  by (simp add: delete_version_def db_exec_eq)

lemma CheckVersion_without_record:
  assumes "\<forall>v\<in>set (versions d). v_ID v \<noteq> bitumplugin_ID"
  shows "fst (CheckVersion d) \<noteq> None"
proof -
  from assms have "filter (\<lambda>v. v_ID v = bitumplugin_ID) (versions d) = []"
    by (simp add: filter_empty_conv)
  then show ?thesis
    by (simp add: CheckVersion_def db_first_eq)
qed

text \<open>
  C4. When the payload decodes and \<open>build\<close> fails with an error, \<open>Build\<close> deletes the
  version record of the plugin. If the store refuses the deletion, \<open>Build\<close> panics.
  Otherwise it returns the error of \<open>build\<close> itself, no version record of the plugin is
  left, and the version check of the next start fails, whatever the store does then, so
  the cache is rebuilt.
\<close>

theorem Build_failure_forces_rebuild:
  assumes dec: "DecodeInventoryReply cd payload = Inr ir"
    and fail: "build d now ir = (Some err, d1)"
  shows "(\<not> store_ok [tableVersions] d1 \<longrightarrow> (\<exists>msg. fst (Build cd d now payload) = Panic msg))
       \<and> (store_ok [tableVersions] d1 \<longrightarrow>
            fst (Build cd d now payload) = Return (Some err)
          \<and> (\<forall>v\<in>set (versions (snd (Build cd d now payload))). v_ID v \<noteq> bitumplugin_ID)
          \<and> (\<forall>fs. fst (CheckVersion (snd (Build cd d now payload)\<lparr>faults := fs\<rparr>)) \<noteq> None))"
proof (intro conjI impI)
  assume "\<not> store_ok [tableVersions] d1"
  with dec fail show "\<exists>msg. fst (Build cd d now payload) = Panic msg"
    by (simp add: Build_def delete_version_eq)
next
  assume ok: "store_ok [tableVersions] d1"
  let ?d2 = "d1\<lparr>faults := tl (faults d1),
                 versions := filter (\<lambda>v. v_ID v \<noteq> bitumplugin_ID) (versions d1)\<rparr>"
  from dec fail ok have B: "Build cd d now payload = (Return (Some err), ?d2)"
    by (simp add: Build_def delete_version_eq)
  show "fst (Build cd d now payload) = Return (Some err)" by (simp add: B)
  show gone: "\<forall>v\<in>set (versions (snd (Build cd d now payload))). v_ID v \<noteq> bitumplugin_ID"
    by (simp add: B)
  show "\<forall>fs. fst (CheckVersion (snd (Build cd d now payload)\<lparr>faults := fs\<rparr>)) \<noteq> None"
  proof
    fix fs
    from gone have "\<forall>v\<in>set (versions (snd (Build cd d now payload)\<lparr>faults := fs\<rparr>)). v_ID v \<noteq> bitumplugin_ID"
      by simp
    then show "fst (CheckVersion (snd (Build cd d now payload)\<lparr>faults := fs\<rparr>)) \<noteq> None"
      by (rule CheckVersion_without_record)
  qed
qed

text \<open>
  The run of C4: the first store operation of the rebuild fails, and then the deletion of
  the version record succeeds or fails too.
\<close>

theorem Build_failure_forces_rebuild_witness:
  "Build demo_codec
      (empty_cache\<lparr>versions := [\<lparr>v_ID = ''bitum'', v_Version = ''1.1'', v_Timestamp = 0\<rparr>],
                    faults := [True]\<rparr>) 1 ''{}''
     = (Return (Some (Errorf ''drop tables'' StoreFault)), empty_cache)
   \<and> fst (CheckVersion empty_cache) = Some ErrNoVersionRecord
   \<and> (\<exists>msg. fst (Build demo_codec
      (empty_cache\<lparr>versions := [\<lparr>v_ID = ''bitum'', v_Version = ''1.1'', v_Timestamp = 0\<rparr>],
                    faults := [True, False, True]\<rparr>) 1 ''{}'') = Panic msg)"
proof -
  let ?ir = "\<lparr>ir_Comments = [], ir_LikeComments = [], ir_AuthorizeVotes = [],
                    ir_AuthorizeVoteReplies = [], ir_StartVoteTuples = [], ir_CastVotes = []\<rparr>"
  let ?v = "\<lparr>v_ID = ''bitum'', v_Version = ''1.1'', v_Timestamp = 0\<rparr>"
  let ?a = "empty_cache\<lparr>versions := [?v], faults := [True]\<rparr>"
  let ?b = "empty_cache\<lparr>versions := [?v], faults := [True, False, True]\<rparr>"
  have dec: "DecodeInventoryReply demo_codec ''{}'' = Inr ?ir"
    by (simp add: demo_codec_def)
  have fa: "build ?a 1 ?ir = (Some (Errorf ''drop tables'' StoreFault), empty_cache\<lparr>versions := [?v]\<rparr>)"
    by (simp add: build_def dropTables_def Begin_def Rollback_def db_exec_eq store_eval)
  have fb: "build ?b 1 ?ir
      = (Some (Errorf ''drop tables'' StoreFault), empty_cache\<lparr>versions := [?v], faults := [True]\<rparr>)"
    by (simp add: build_def dropTables_def Begin_def Rollback_def db_exec_eq store_eval)
  have oka: "store_ok [tableVersions] (empty_cache\<lparr>versions := [?v]\<rparr>)"
    by (simp add: store_eval)
  have okb: "\<not> store_ok [tableVersions] (empty_cache\<lparr>versions := [?v], faults := [True]\<rparr>)"
    by (simp add: store_eval)
  from Build_failure_forces_rebuild [OF dec fa] oka
  have 1: "fst (Build demo_codec ?a 1 ''{}'') = Return (Some (Errorf ''drop tables'' StoreFault))"
    by blast
  have 2: "snd (Build demo_codec ?a 1 ''{}'') = empty_cache"
    using oka by (simp add: Build_def dec fa delete_version_eq) (simp add: empty_cache_def bitumplugin_ID_def)
  from Build_failure_forces_rebuild [OF dec fb] okb
  have 3: "\<exists>msg. fst (Build demo_codec ?b 1 ''{}'') = Panic msg"
    by blast
  have 4: "fst (CheckVersion empty_cache) = Some ErrNoVersionRecord"
    by (simp add: CheckVersion_def HasTable_def db_first_eq store_eval)
  from 1 2 3 4 show ?thesis by (simp add: prod_eq_iff)
qed

subsection \<open>Vote results belong to start votes\<close>

text \<open>The handlers that leave start votes and vote results alone.\<close>

lemmas frame_simps = db_query_eq db_first_eq db_exec_eq or_zero_def

lemma votes_cmdNewComment:
  "start_votes (snd (cmdNewComment cd d p r)) = start_votes d \<and>
   vote_results (snd (cmdNewComment cd d p r)) = vote_results d"
  by (simp add: cmdNewComment_def newComment_def frame_simps split: sum.splits)

lemma votes_cmdLikeComment:
  "start_votes (snd (cmdLikeComment cd d p r)) = start_votes d \<and>
   vote_results (snd (cmdLikeComment cd d p r)) = vote_results d"
  by (simp add: cmdLikeComment_def newLikeComment_def frame_simps split: sum.splits)

lemma votes_cmdCensorComment:
  "start_votes (snd (cmdCensorComment cd d p r)) = start_votes d \<and>
   vote_results (snd (cmdCensorComment cd d p r)) = vote_results d"
  by (simp add: cmdCensorComment_def frame_simps split: sum.splits)

lemma votes_cmdGetComment:
  "start_votes (snd (cmdGetComment cd d p)) = start_votes d \<and>
   vote_results (snd (cmdGetComment cd d p)) = vote_results d"
  by (simp add: cmdGetComment_def frame_simps split: sum.splits list.splits)

lemma votes_cmdGetComments:
  "start_votes (snd (cmdGetComments cd d p)) = start_votes d \<and>
   vote_results (snd (cmdGetComments cd d p)) = vote_results d"
  by (simp add: cmdGetComments_def frame_simps split: sum.splits)

lemma votes_cmdCommentLikes:
  "start_votes (snd (cmdCommentLikes cd d p)) = start_votes d \<and>
   vote_results (snd (cmdCommentLikes cd d p)) = vote_results d"
  by (simp add: cmdCommentLikes_def frame_simps split: sum.splits)

lemma votes_cmdProposalCommentsLikes:
  "start_votes (snd (cmdProposalCommentsLikes cd d p)) = start_votes d \<and>
   vote_results (snd (cmdProposalCommentsLikes cd d p)) = vote_results d"
  by (simp add: cmdProposalCommentsLikes_def frame_simps split: sum.splits)

lemma votes_cmdInventory:
  "start_votes (snd (cmdInventory cd d)) = start_votes d \<and>
   vote_results (snd (cmdInventory cd d)) = vote_results d"
  by (simp add: cmdInventory_def frame_simps split: sum.splits)


lemma votes_newAuthorizeVote:
  "start_votes (snd (newAuthorizeVote tx av)) = start_votes tx \<and>
   vote_results (snd (newAuthorizeVote tx av)) = vote_results tx"
  by (simp add: newAuthorizeVote_def frame_simps)

lemma votes_Commit:
  "Commit d tx = (e, d') \<Longrightarrow> start_votes tx = start_votes d \<Longrightarrow> vote_results tx = vote_results d \<Longrightarrow>
     start_votes d' = start_votes d \<and> vote_results d' = vote_results d"
  by (auto simp: Commit_def attempt_eq split: bool.splits)

lemma votes_cmdAuthorizeVote:
  "start_votes (snd (cmdAuthorizeVote cd d p r)) = start_votes d \<and>
   vote_results (snd (cmdAuthorizeVote cd d p r)) = vote_results d"
proof (cases "DecodeAuthorizeVote cd p")
  case (Inl e)
  then show ?thesis by (simp add: cmdAuthorizeVote_def)
next
  case av: (Inr av)
  show ?thesis
  proof (cases "DecodeAuthorizeVoteReply cd r")
    case (Inl e)
    with av show ?thesis by (simp add: cmdAuthorizeVote_def)
  next
    case avr: (Inr avr)
    show ?thesis
    proof (cases "ParseUint (avr_RecordVersion avr)")
      case (Inl e)
      with av avr show ?thesis by (simp add: cmdAuthorizeVote_def)
    next
      case (Inr v)
      obtain e tx where n: "newAuthorizeVote (Begin d) (convertAuthorizeVoteFromBitum av avr v) = (e, tx)"
        by fastforce
      with votes_newAuthorizeVote [of "Begin d" "convertAuthorizeVoteFromBitum av avr v"]
      have tx: "start_votes tx = start_votes d" "vote_results tx = vote_results d"
        by (simp_all add: Begin_def)
      obtain e' d' where c: "Commit d tx = (e', d')" by fastforce
      from votes_Commit [OF c tx] av avr Inr n c show ?thesis
        by (auto simp: cmdAuthorizeVote_def Rollback_def split: option.splits)
    qed
  qed
qed

lemma votes_ballot_loop:
  "start_votes (snd (ballot_loop tx vs)) = start_votes tx \<and>
   vote_results (snd (ballot_loop tx vs)) = vote_results tx"
  by (induction vs arbitrary: tx) (simp_all add: newCastVote_eq)

lemma votes_cmdNewBallot:
  "start_votes (snd (cmdNewBallot cd d p r)) = start_votes d \<and>
   vote_results (snd (cmdNewBallot cd d p r)) = vote_results d"
proof (cases "DecodeBallot cd p")
  case (Inl e)
  then show ?thesis by (simp add: cmdNewBallot_def)
next
  case (Inr votes)
  obtain e tx where l: "ballot_loop (Begin d) votes = (e, tx)" by fastforce
  with votes_ballot_loop [of "Begin d" votes]
  have tx: "start_votes tx = start_votes d" "vote_results tx = vote_results d"
    by (simp_all add: Begin_def)
  obtain e' d' where c: "Commit d tx = (e', d')" by fastforce
  from votes_Commit [OF c tx] Inr l c show ?thesis
    by (auto simp: cmdNewBallot_def Rollback_def split: option.splits)
qed

lemma votes_cmdVoteDetails:
  "start_votes (snd (cmdVoteDetails cd d p)) = start_votes d \<and>
   vote_results (snd (cmdVoteDetails cd d p)) = vote_results d"
  by (simp add: cmdVoteDetails_def frame_simps split: sum.splits list.splits)

lemma votes_cmdProposalVotes:
  "start_votes (snd (cmdProposalVotes cd d p)) = start_votes d \<and>
   vote_results (snd (cmdProposalVotes cd d p)) = vote_results d"
  by (simp add: cmdProposalVotes_def frame_simps split: sum.splits list.splits)

lemma votes_cmdTokenInventory:
  "start_votes (snd (cmdTokenInventory cd d p)) = start_votes d \<and>
   vote_results (snd (cmdTokenInventory cd d p)) = vote_results d"
  by (simp add: cmdTokenInventory_def frame_simps split: sum.splits)

lemma votes_count_loop:
  "start_votes (snd (count_loop d vs rs)) = start_votes d \<and>
   vote_results (snd (count_loop d vs rs)) = vote_results d"
  by (induction vs arbitrary: d rs) (simp_all add: frame_simps)

lemma votes_sendReply [simp]: "snd (sendReply cd av sv rs d) = d"
  by (simp add: sendReply_def split: sum.splits)

lemma votes_cmdVoteSummary:
  "start_votes (snd (cmdVoteSummary cd d p)) = start_votes d \<and>
   vote_results (snd (cmdVoteSummary cd d p)) = vote_results d"
proof -
  have cl: "start_votes (snd (case count_loop d' vs [] of
                  (Inl err', d5) \<Rightarrow> (([], Some err'), d5)
                | (Inr results, d5) \<Rightarrow> sendReply cd av sv results d5)) = start_votes d' \<and>
            vote_results (snd (case count_loop d' vs [] of
                  (Inl err', d5) \<Rightarrow> (([], Some err'), d5)
                | (Inr results, d5) \<Rightarrow> sendReply cd av sv results d5)) = vote_results d'"
    for d' vs av sv
    using votes_count_loop [of d' vs "[]"]
    by (cases "count_loop d' vs []") (auto split: sum.splits)
  show ?thesis
    by (simp add: cmdVoteSummary_def frame_simps cl split: sum.splits list.splits)
qed

lemma linked_frame:
  "start_votes d' = start_votes d \<and> vote_results d' = vote_results d \<Longrightarrow> linked d \<Longrightarrow> linked d'"
  by (simp add: linked_def)

lemma linked_grow:
  "set (start_votes d) \<subseteq> set (start_votes d') \<Longrightarrow> vote_results d' = vote_results d \<Longrightarrow>
     linked d \<Longrightarrow> linked d'"
proof -
  assume sub: "set (start_votes d) \<subseteq> set (start_votes d')"
    and same: "vote_results d' = vote_results d" and l: "linked d"
  show "linked d'"
    unfolding linked_def
  proof
    fix r assume "r \<in> set (vote_results d')"
    with same l obtain s where "s \<in> set (start_votes d)" "sv_Token s = vr_Token r"
      unfolding linked_def by auto
    with sub show "\<exists>s\<in>set (start_votes d'). sv_Token s = vr_Token r" by auto
  qed
qed

lemma linked_newVoteResults: "linked d \<Longrightarrow> linked (snd (newVoteResults d t))"
proof -
  assume l: "linked d"
  obtain e d' where n: "newVoteResults d t = (e, d')" by fastforce
  from newVoteResults_effect [OF n] l have "linked d'"
    by (auto simp: linked_def)
  with n show ?thesis by simp
qed

lemma linked_load_loop: "linked d \<Longrightarrow> linked (snd (load_loop d ts))"
proof (induction ts arbitrary: d)
  case Nil
  then show ?case by simp
next
  case (Cons t ts)
  from linked_newVoteResults [OF Cons.prems, of t] Cons.IH [of "snd (newVoteResults d t)"]
  show ?case by (auto split: prod.splits option.splits)
qed

lemma linked_faults [simp]: "linked (d\<lparr>faults := f\<rparr>) = linked d"
  by (simp add: linked_def)

lemma linked_cmdLoadVoteResults: "linked d \<Longrightarrow> linked (snd (cmdLoadVoteResults cd d p))"
proof -
  assume l: "linked d"
  show ?thesis
  proof (cases "DecodeLoadVoteResults cd p")
    case (Inl e)
    with l show ?thesis by (simp add: cmdLoadVoteResults_def)
  next
    case (Inr b)
    let ?d1 = "d\<lparr>faults := tl (faults d)\<rparr>"
    obtain e2 d2 where ll: "load_loop ?d1 (finished_without_results b ?d1) = (e2, d2)" by fastforce
    from linked_load_loop [of ?d1 "finished_without_results b ?d1"] l ll
    have "linked d2" by simp
    with l Inr ll show ?thesis
      by (auto simp: cmdLoadVoteResults_def db_query_eq split: sum.splits option.splits)
  qed
qed

lemma linked_newStartVote: "linked d \<Longrightarrow> linked (snd (newStartVote d sv))"
  by (rule linked_grow [of d]) (auto simp: newStartVote_def db_exec_eq)

lemma linked_cmdStartVote: "linked d \<Longrightarrow> linked (snd (cmdStartVote cd d p r))"
  using linked_newStartVote [of d]
  by (auto simp: cmdStartVote_def split: sum.splits prod.splits option.splits) (metis snd_conv)+

lemma if_keeps: "P a \<Longrightarrow> P b \<Longrightarrow> P (if c then a else b)"
  by simp

text \<open>Every command keeps the vote results linked to start votes.\<close>

lemma linked_Exec:
  assumes l: "linked d"
  shows "linked (snd (Exec cd d cmd p r))"
proof -
  note keep =
    linked_frame [OF votes_cmdAuthorizeVote l] linked_cmdStartVote [OF l]
    linked_frame [OF votes_cmdVoteDetails l] linked_frame [OF votes_cmdNewBallot l]
    linked_frame [OF votes_cmdNewComment l] linked_frame [OF votes_cmdLikeComment l]
    linked_frame [OF votes_cmdCensorComment l] linked_frame [OF votes_cmdGetComment l]
    linked_frame [OF votes_cmdGetComments l] linked_frame [OF votes_cmdProposalVotes l]
    linked_frame [OF votes_cmdCommentLikes l] linked_frame [OF votes_cmdProposalCommentsLikes l]
    linked_frame [OF votes_cmdInventory l] linked_cmdLoadVoteResults [OF l]
    linked_frame [OF votes_cmdTokenInventory l] linked_frame [OF votes_cmdVoteSummary l]
  show ?thesis by (simp add: Exec_def keep l)
qed

lemma linked_db_exec:
  "linked d \<Longrightarrow> (\<And>x. linked x \<Longrightarrow> linked (upd x)) \<Longrightarrow> linked (snd (db_exec tbls upd d))"
  by (simp add: db_exec_eq)

lemma linked_for_each:
  "(\<And>v x. linked x \<Longrightarrow> linked (snd (body v x))) \<Longrightarrow> linked d \<Longrightarrow>
     linked (snd (for_each body vs d))"
proof (induction vs arbitrary: d)
  case Nil
  then show ?case by simp
next
  case (Cons v vs)
  obtain e d1 where b: "body v d = (e, d1)" by fastforce
  from Cons.prems(1) [OF Cons.prems(2), of v] b have l1: "linked d1" by simp
  show ?case
  proof (cases e)
    case None
    with b Cons.IH [OF Cons.prems(1) l1] show ?thesis by simp
  next
    case (Some err)
    with b l1 show ?thesis by simp
  qed
qed

lemma linked_Commit: "linked d \<Longrightarrow> linked tx \<Longrightarrow> linked (snd (Commit d tx))"
  by (simp add: Commit_def attempt_eq split: bool.splits)

lemma linked_Rollback: "linked d \<Longrightarrow> linked (Rollback d tx)"
  by (simp add: Rollback_def)

lemma linked_delete_version: "linked d \<Longrightarrow> linked (snd (delete_version d))"
  unfolding delete_version_def by (rule linked_db_exec) (simp_all add: linked_def)

lemma linked_dropTables: "linked tx \<Longrightarrow> linked (snd (dropTables tx))"
proof -
  assume l: "linked tx"
  let ?drop = "\<lambda>db. db\<lparr>comments := [], like_comments := [], cast_votes := [], authorize_votes := [],
                       start_votes := [], vote_results := [],
                       tables := filter (\<lambda>t. t \<notin> set plugin_tables) (tables db)\<rparr>"
  have "linked (snd (db_exec [] ?drop tx))"
    by (rule linked_db_exec [OF l]) (simp add: linked_def)
  with linked_delete_version show ?thesis
    by (auto simp: dropTables_def split: prod.splits option.splits)
qed

lemma linked_createTables: "linked tx \<Longrightarrow> linked (snd (createTables tx now))"
proof -
  assume l: "linked tx"
  let ?body = "\<lambda>t db. if \<not> HasTable db t then CreateTable t db else (None, db)"
  have body: "linked (snd (?body t x))" if "linked x" for t x
    using that linked_db_exec [of x "\<lambda>d. d\<lparr>tables := tables d @ [t]\<rparr>" "[]"]
    by (simp add: CreateTable_def linked_def)
  have 1: "linked (snd (for_each ?body plugin_tables tx))"
    by (rule linked_for_each [OF body l])
  obtain e tx1 where f: "for_each ?body plugin_tables tx = (e, tx1)" by fastforce
  with 1 have l1: "linked tx1" by simp
  have ins: "linked (snd (db_exec [tableVersions]
                 (\<lambda>db. db\<lparr>versions := versions db @
                     [\<lparr>v_ID = bitumplugin_ID, v_Version = bitumVersion, v_Timestamp = now\<rparr>]\<rparr>) x))"
    if "linked x" for x
    by (rule linked_db_exec [OF that]) (simp add: linked_def)
  from f l1 ins [of "tx1\<lparr>faults := tl (faults tx1)\<rparr>"] show ?thesis
    by (auto simp: createTables_def db_first_eq split: option.splits list.splits)
qed

lemma linked_build_steps:
  assumes "linked x"
  shows "linked (snd (build_comment c x))"
    and "linked (snd (build_like_comment lc x))"
    and "linked (snd (build_authorize_vote avr av x))"
    and "linked (snd (build_start_vote sv x))"
    and "linked (snd (build_cast_vote cv x))"
proof -
  show "linked (snd (build_comment c x))"
    using linked_db_exec [OF assms, of "\<lambda>d. d\<lparr>comments := comments d @ [convertCommentFromBitum c]\<rparr>" "[tableComments]"]
    by (auto simp: build_comment_def newComment_def linked_def split: prod.splits option.splits)
  show "linked (snd (build_like_comment lc x))"
    using linked_db_exec [OF assms, of "\<lambda>d. d\<lparr>like_comments := like_comments d @ [convertLikeCommentFromBitum lc]\<rparr>" "[tableCommentLikes]"]
    by (auto simp: build_like_comment_def newLikeComment_def linked_def split: prod.splits option.splits)
  show "linked (snd (build_authorize_vote avr av x))"
    using linked_frame [OF votes_newAuthorizeVote assms] assms
    by (auto simp: build_authorize_vote_def split: prod.splits option.splits sum.splits)
       (metis snd_conv)+
  show "linked (snd (build_start_vote sv x))"
    using linked_newStartVote [OF assms] assms
    by (auto simp: build_start_vote_def split: prod.splits option.splits sum.splits)
       (metis snd_conv)+
  show "linked (snd (build_cast_vote cv x))"
    using linked_db_exec [OF assms, of "\<lambda>d. d\<lparr>cast_votes := cast_votes d @ [convertCastVoteFromBitum cv]\<rparr>" "[tableCastVotes]"]
    by (auto simp: build_cast_vote_def newCastVote_def linked_def split: prod.splits option.splits)
qed

lemma linked_build: 
  assumes l: "linked d"
  shows "linked (snd (build d now ir))"
proof -
  obtain e0 tx where a: "dropTables (Begin d) = (e0, tx)" by fastforce
  from linked_dropTables [of "Begin d"] l a have ltx: "linked tx" by (simp add: Begin_def)
  obtain e1 d1 where b: "Commit d tx = (e1, d1)" by fastforce
  from linked_Commit [OF l ltx] b have l1: "linked d1" by simp
  obtain e2 tx' where c: "createTables (Begin d1) now = (e2, tx')" by fastforce
  from linked_createTables [of "Begin d1" now] l1 c have ltx': "linked tx'" by (simp add: Begin_def)
  obtain e3 d2 where dd: "Commit d1 tx' = (e3, d2)" by fastforce
  from linked_Commit [OF l1 ltx'] dd have l2: "linked d2" by simp
  obtain e4 d3 where f1: "for_each build_comment (ir_Comments ir) d2 = (e4, d3)" by fastforce
  from linked_for_each [of build_comment d2 "ir_Comments ir"] linked_build_steps(1) l2 f1
  have l3: "linked d3" by simp
  obtain e5 d4 where f2: "for_each build_like_comment (ir_LikeComments ir) d3 = (e5, d4)" by fastforce
  from linked_for_each [of build_like_comment d3 "ir_LikeComments ir"] linked_build_steps(2) l3 f2
  have l4: "linked d4" by simp
  obtain e6 d5 where f3: "for_each (build_authorize_vote (reply_map (ir_AuthorizeVoteReplies ir)))
             (ir_AuthorizeVotes ir) d4 = (e6, d5)" by fastforce
  from linked_for_each [of "build_authorize_vote (reply_map (ir_AuthorizeVoteReplies ir))" d4
      "ir_AuthorizeVotes ir"] linked_build_steps(3) l4 f3
  have l5: "linked d5" by simp
  obtain e7 d6 where f4: "for_each build_start_vote (ir_StartVoteTuples ir) d5 = (e7, d6)" by fastforce
  from linked_for_each [of build_start_vote d5 "ir_StartVoteTuples ir"] linked_build_steps(4) l5 f4
  have l6: "linked d6" by simp
  from linked_for_each [of build_cast_vote d6 "ir_CastVotes ir"] linked_build_steps(5) l6
  have l7: "linked (snd (for_each build_cast_vote (ir_CastVotes ir) d6))" by simp
  from a b c dd f1 f2 f3 f4 l l1 l2 l3 l4 l5 l6 l7 linked_Rollback [OF l, of tx]
    linked_Rollback [OF l1, of tx']
  show ?thesis
    by (cases e0; cases e1; cases e2; cases e3; cases e4; cases e5; cases e6; cases e7)
       (simp_all add: build_def)
qed

text \<open>The rebuild keeps the vote results linked to start votes.\<close>

lemma linked_Build: "linked d \<Longrightarrow> linked (snd (Build cd d now payload))"
  using linked_build [of d now] linked_delete_version
  by (auto simp: Build_def split: sum.splits prod.splits option.splits) (metis snd_conv)+

subsection \<open>Token inventory\<close>

lemma no_faults_step:
  assumes "no_faults (Suc n) d" and "set tbls \<subseteq> set (tables d)"
  shows "store_ok tbls d \<and> no_faults n (d\<lparr>faults := tl (faults d)\<rparr>)"
  using assms
  by (cases "faults d") (auto simp: no_faults_def store_ok_def attempt_def list_all_iff)

lemma db_query_ok:
  "store_ok tbls d \<Longrightarrow>
     db_query tbls q d = (Inr (q (d\<lparr>faults := tl (faults d)\<rparr>)), d\<lparr>faults := tl (faults d)\<rparr>)"
  by (simp add: db_query_eq)

lemma query_faults [simp]:
  "pre_tokens (d\<lparr>faults := f\<rparr>) = pre_tokens d"
  "active_tokens b (d\<lparr>faults := f\<rparr>) = active_tokens b d"
  "approved_tokens (d\<lparr>faults := f\<rparr>) = approved_tokens d"
  "rejected_tokens (d\<lparr>faults := f\<rparr>) = rejected_tokens d"
  "abandoned_tokens (d\<lparr>faults := f\<rparr>) = abandoned_tokens d"
  by (simp_all add: pre_tokens_def active_tokens_def approved_tokens_def rejected_tokens_def
      abandoned_tokens_def results_join_def)

lemma order_desc_mset [simp]: "mset (order_desc rank k xs) = mset xs"
  by (simp add: order_desc_def)

lemma order_desc_set [simp]: "set (order_desc rank k xs) = set xs"
  by (simp add: order_desc_def)

lemma order_desc_sorted: "sorted (rev (map k (order_desc rank k xs)))"
  by (simp add: order_desc_def rev_map [symmetric])

lemma finished_without_results_empty:
  "finished_without_results b d = [] \<longleftrightarrow>
     \<not> (\<exists>s\<in>set (start_votes d). sv_EndHeight s \<le> b \<and> (\<forall>r\<in>set (vote_results d). vr_Token r \<noteq> sv_Token s))"
  by (auto simp: finished_without_results_def filter_empty_conv list_ex_iff)

lemma set_results_join:
  "set (results_join d) =
     {(r, s). r \<in> set (vote_results d) \<and> s \<in> set (start_votes d) \<and> vr_Token r = sv_Token s}"
  by (auto simp: results_join_def)

lemma set_approved_tokens:
  assumes "\<forall>r\<in>set (vote_results d). \<exists>s\<in>set (start_votes d). sv_Token s = vr_Token r"
  shows "set (approved_tokens d) = vr_Token ` {r \<in> set (vote_results d). vr_Approved r}"
    and "set (rejected_tokens d) = vr_Token ` {r \<in> set (vote_results d). \<not> vr_Approved r}"
  using assms
  by (force simp: approved_tokens_def rejected_tokens_def set_results_join image_iff)+

text \<open>
  C3. Let the payload decode to a reference height, let the store answer the queries of
  the command, and let every vote result belong to a start vote, as it does in every
  cache that the commands and the rebuild produce (\<open>linked_Exec\<close>, \<open>linked_Build\<close>).
  If some start vote ended at or before the height and has no vote result, the
  token-inventory command returns the not-found error and no reply. Otherwise it returns
  the encoding of five lists, where active holds exactly the tokens of the start votes
  that end after the height, ordered by end height descending, and approved and rejected
  hold exactly the tokens of the vote results whose approved flag is true and false.
\<close>

theorem token_inventory_classification:
  assumes dec: "DecodeTokenInventory cd payload = Inr bestBlock"
    and healthy: "no_faults 6 d"
    and tabs: "{tableStartVotes, tableVoteResults, tableRecords} \<subseteq> set (tables d)"
    and inv: "linked d"
  shows "if (\<exists>s\<in>set (start_votes d). sv_EndHeight s \<le> bestBlock \<and>
               (\<forall>r\<in>set (vote_results d). vr_Token r \<noteq> sv_Token s))
         then fst (cmdTokenInventory cd d payload) = ([], Some ErrRecordNotFound)
         else (\<exists>pre active approved rejected abandoned rows.
                 fst (cmdTokenInventory cd d payload) =
                   (case EncodeTokenInventoryReply cd
                           \<lparr>tir_Pre = pre, tir_Active = active, tir_Approved = approved,
                            tir_Rejected = rejected, tir_Abandoned = abandoned\<rparr> of
                      Inl err \<Rightarrow> ([], Some err)
                    | Inr reply \<Rightarrow> (reply, None))
               \<and> active = map sv_Token rows
               \<and> mset rows = mset (filter (\<lambda>s. bestBlock < sv_EndHeight s) (start_votes d))
               \<and> sorted (rev (map sv_EndHeight rows))
               \<and> set approved = vr_Token ` {r \<in> set (vote_results d). vr_Approved r}
               \<and> set rejected = vr_Token ` {r \<in> set (vote_results d). \<not> vr_Approved r})"
proof -
  define d1 where "d1 = d\<lparr>faults := tl (faults d)\<rparr>"
  define d2 where "d2 = d1\<lparr>faults := tl (faults d1)\<rparr>"
  define d3 where "d3 = d2\<lparr>faults := tl (faults d2)\<rparr>"
  define d4 where "d4 = d3\<lparr>faults := tl (faults d3)\<rparr>"
  define d5 where "d5 = d4\<lparr>faults := tl (faults d4)\<rparr>"
  define d6 where "d6 = d5\<lparr>faults := tl (faults d5)\<rparr>"
  have t: "tables d1 = tables d" "tables d2 = tables d" "tables d3 = tables d"
    "tables d4 = tables d" "tables d5 = tables d"
    by (simp_all add: d1_def d2_def d3_def d4_def d5_def)
  from healthy have h6: "no_faults (Suc 5) d" by (simp add: eval_nat_numeral)
  from no_faults_step [OF h6, of "[tableStartVotes, tableVoteResults]"] tabs
  have ok0: "store_ok [tableStartVotes, tableVoteResults] d" and h5: "no_faults (Suc 4) d1"
    by (simp_all add: d1_def eval_nat_numeral)
  from no_faults_step [OF h5, of "[tableRecords, tableStartVotes]"] tabs t
  have ok1: "store_ok [tableRecords, tableStartVotes] d1" and h4: "no_faults (Suc 3) d2"
    by (simp_all add: d2_def eval_nat_numeral)
  from no_faults_step [OF h4, of "[tableStartVotes]"] tabs t
  have ok2: "store_ok [tableStartVotes] d2" and h3: "no_faults (Suc 2) d3"
    by (simp_all add: d3_def eval_nat_numeral)
  from no_faults_step [OF h3, of "[tableVoteResults, tableStartVotes]"] tabs t
  have ok3: "store_ok [tableVoteResults, tableStartVotes] d3" and h2: "no_faults (Suc 1) d4"
    by (simp_all add: d4_def eval_nat_numeral)
  from no_faults_step [OF h2, of "[tableVoteResults, tableStartVotes]"] tabs t
  have ok4: "store_ok [tableVoteResults, tableStartVotes] d4" and h1: "no_faults (Suc 0) d5"
    by (simp_all add: d5_def)
  from no_faults_step [OF h1, of "[tableRecords]"] tabs t
  have ok5: "store_ok [tableRecords] d5"
    by simp
  have q0: "db_query [tableStartVotes, tableVoteResults] (finished_without_results bestBlock) d
      = (Inr (finished_without_results bestBlock d), d1)"
    by (subst db_query_ok [OF ok0]) (simp add: d1_def)
  have q1: "db_query [tableRecords, tableStartVotes] pre_tokens d1 = (Inr (pre_tokens d), d2)"
    by (subst db_query_ok [OF ok1]) (simp add: d2_def d1_def)
  have q2: "db_query [tableStartVotes] (active_tokens bestBlock) d2 = (Inr (active_tokens bestBlock d), d3)"
    by (subst db_query_ok [OF ok2]) (simp add: d3_def d2_def d1_def)
  have q3: "db_query [tableVoteResults, tableStartVotes] approved_tokens d3 = (Inr (approved_tokens d), d4)"
    by (subst db_query_ok [OF ok3]) (simp add: d4_def d3_def d2_def d1_def)
  have q4: "db_query [tableVoteResults, tableStartVotes] rejected_tokens d4 = (Inr (rejected_tokens d), d5)"
    by (subst db_query_ok [OF ok4]) (simp add: d5_def d4_def d3_def d2_def d1_def)
  have q5: "db_query [tableRecords] abandoned_tokens d5 = (Inr (abandoned_tokens d), d6)"
    by (subst db_query_ok [OF ok5]) (simp add: d6_def d5_def d4_def d3_def d2_def d1_def)
  show ?thesis
  proof (cases "finished_without_results bestBlock d = []")
    case False
    then have stale: "\<exists>s\<in>set (start_votes d). sv_EndHeight s \<le> bestBlock \<and>
               (\<forall>r\<in>set (vote_results d). vr_Token r \<noteq> sv_Token s)"
      by (simp add: finished_without_results_empty)
    from False have err: "fst (cmdTokenInventory cd d payload) = ([], Some ErrRecordNotFound)"
      by (simp add: cmdTokenInventory_def dec q0)
    show ?thesis unfolding if_P [OF stale] by (rule err)
  next
    case True
    then have fresh: "\<not> (\<exists>s\<in>set (start_votes d). sv_EndHeight s \<le> bestBlock \<and>
               (\<forall>r\<in>set (vote_results d). vr_Token r \<noteq> sv_Token s))"
      by (simp add: finished_without_results_empty)
    let ?rows = "order_desc (\<lambda>s. tie_rank d ''active'' (sv_Token s)) sv_EndHeight
                   (filter (\<lambda>s. bestBlock < sv_EndHeight s) (start_votes d))"
    have run: "fst (cmdTokenInventory cd d payload) =
                   (case EncodeTokenInventoryReply cd
                           \<lparr>tir_Pre = pre_tokens d, tir_Active = active_tokens bestBlock d,
                            tir_Approved = approved_tokens d, tir_Rejected = rejected_tokens d,
                            tir_Abandoned = abandoned_tokens d\<rparr> of
                      Inl err \<Rightarrow> ([], Some err)
                    | Inr reply \<Rightarrow> (reply, None))"
      using True by (simp add: cmdTokenInventory_def dec q0 q1 q2 q3 q4 q5 split: sum.splits)
    have a: "active_tokens bestBlock d = map sv_Token ?rows"
      by (simp add: active_tokens_def)
    have m: "mset ?rows = mset (filter (\<lambda>s. bestBlock < sv_EndHeight s) (start_votes d))"
      by simp
    have s: "sorted (rev (map sv_EndHeight ?rows))" by (rule order_desc_sorted)
    note ar = set_approved_tokens [OF inv [unfolded linked_def]]
    from run a m s ar have ex:
      "\<exists>pre active approved rejected abandoned rows.
                 fst (cmdTokenInventory cd d payload) =
                   (case EncodeTokenInventoryReply cd
                           \<lparr>tir_Pre = pre, tir_Active = active, tir_Approved = approved,
                            tir_Rejected = rejected, tir_Abandoned = abandoned\<rparr> of
                      Inl err \<Rightarrow> ([], Some err)
                    | Inr reply \<Rightarrow> (reply, None))
               \<and> active = map sv_Token rows
               \<and> mset rows = mset (filter (\<lambda>s. bestBlock < sv_EndHeight s) (start_votes d))
               \<and> sorted (rev (map sv_EndHeight rows))
               \<and> set approved = vr_Token ` {r \<in> set (vote_results d). vr_Approved r}
               \<and> set rejected = vr_Token ` {r \<in> set (vote_results d). \<not> vr_Approved r}"
      by blast
    show ?thesis unfolding if_not_P [OF fresh] by (rule ex)
  qed
qed

text \<open>
  The run of C3 at height 100: with \<open>bb\<close> ended and not tallied the command fails, with
  the vote result of \<open>bb\<close> in place it returns the buckets.
\<close>

theorem token_inventory_classification_witness:
  "fst (cmdTokenInventory demo_codec demo_cache ''100'') = ([], Some ErrRecordNotFound)
   \<and> fst (cmdTokenInventory demo_codec (demo_cache\<lparr>vote_results := [demo_result_aa, demo_result_bb]\<rparr>) ''100'')
       = ('';cc,dd;aa;bb;'', None)"
proof -
  let ?done = "demo_cache\<lparr>vote_results := [demo_result_aa, demo_result_bb]\<rparr>"
  have dec: "DecodeTokenInventory demo_codec ''100'' = Inr 100"
    by (simp add: demo_codec_def ParseUint_def is_digit_def digit_val_def)
  have h: "no_faults 6 demo_cache" "no_faults 6 ?done"
    by (simp_all add: no_faults_def demo_cache_def empty_cache_def)
  have t: "{tableStartVotes, tableVoteResults, tableRecords} \<subseteq> set (tables demo_cache)"
    "{tableStartVotes, tableVoteResults, tableRecords} \<subseteq> set (tables ?done)"
    by (simp_all add: demo_cache_def empty_cache_def table_names)
  have inv: "linked demo_cache"
    by (simp add: linked_def demo_cache_def demo_result_aa_def demo_start_vote_def)
  have inv': "linked ?done"
    by (simp add: linked_def demo_cache_def demo_result_aa_def demo_result_bb_def demo_start_vote_def)
  have stale: "\<exists>s\<in>set (start_votes demo_cache). sv_EndHeight s \<le> 100 \<and>
               (\<forall>r\<in>set (vote_results demo_cache). vr_Token r \<noteq> sv_Token s)"
    by (simp add: demo_cache_def demo_result_aa_def demo_start_vote_def)
  have 1: "fst (cmdTokenInventory demo_codec demo_cache ''100'') = ([], Some ErrRecordNotFound)"
    using token_inventory_classification [OF dec h(1) t(1) inv] unfolding if_P [OF stale] .
  have fresh: "\<not> (\<exists>s\<in>set (start_votes ?done). sv_EndHeight s \<le> 100 \<and>
               (\<forall>r\<in>set (vote_results ?done). vr_Token r \<noteq> sv_Token s))"
    by (simp add: demo_cache_def demo_result_aa_def demo_result_bb_def demo_start_vote_def)
  note T = token_inventory_classification [OF dec h(2) t(2) inv', unfolded if_not_P [OF fresh]]
  have q: "finished_without_results 100 ?done = []"
    "pre_tokens ?done = []" "active_tokens 100 ?done = [''cc'', ''dd'']"
    "approved_tokens ?done = [''aa'']" "rejected_tokens ?done = [''bb'']"
    "abandoned_tokens ?done = []"
    by (simp_all add: finished_without_results_def pre_tokens_def active_tokens_def
        approved_tokens_def rejected_tokens_def abandoned_tokens_def results_join_def
        order_desc_def demo_cache_def empty_cache_def demo_result_aa_def demo_result_bb_def
        demo_start_vote_def)
  have tf: "tables demo_cache = plugin_tables @ [tableRecords, tableVersions]" "faults demo_cache = []"
    by (simp_all add: demo_cache_def empty_cache_def)
  have enc: "EncodeTokenInventoryReply demo_codec
       \<lparr>tir_Pre = [], tir_Active = [''cc'', ''dd''], tir_Approved = [''aa''],
        tir_Rejected = [''bb''], tir_Abandoned = []\<rparr> = Inr '';cc,dd;aa;bb;''"
    by (simp add: demo_codec_def strings_Join_def)
  have 2: "fst (cmdTokenInventory demo_codec ?done ''100'') = ('';cc,dd;aa;bb;'', None)"
    by (simp add: cmdTokenInventory_def dec db_query_eq store_ok_def attempt_def tf table_names q enc)
  from 1 2 T show ?thesis by simp
qed

end
